theory Spec2Isabelle
  imports Main "HOL-Library.AList"
begin

section \<open>Python values, strings and dictionaries\<close>

text \<open>
  The handler \<^verbatim>\<open>analyze_product\<close> of \<^verbatim>\<open>backend/main.py\<close> works on loosely typed
  JSON-like data returned by its collaborators. A field value is \<^verbatim>\<open>None\<close>, a string or
  an integer; floats, booleans and nested containers are outside the model. A string is a
  list of characters with code points below 256 (a \<open>char\<close> is its code point), and on
  these strings the functions below are Python's; characters from 256 on are outside the
  type. Integers are unbounded, and \<^verbatim>\<open>str\<close> and \<^verbatim>\<open>int\<close> refuse more than 4300 digits, as
  the interpreter does by default (\<^verbatim>\<open>sys.int_info.default_max_str_digits\<close>).
\<close>

datatype pyval = PNone | PStr string | PInt int

text \<open>Exceptions are values. Every constructor is an instance of Python's \<^verbatim>\<open>Exception\<close>,
  \<^verbatim>\<open>fastapi.HTTPException\<close> included, so \<^verbatim>\<open>except Exception\<close> catches all of them.\<close>

datatype exn =
    HTTPException nat string
  | KeyError string
  | AttributeError string
  | ValueError string
  | TypeError string
  | Exception string

text \<open>A record read by key (\<^verbatim>\<open>detail.get(...)\<close>, \<^verbatim>\<open>p["decision"]\<close>) is a finite map;
  a dictionary the handler builds is an association list in insertion order with
  distinct keys, as Python's \<^verbatim>\<open>dict\<close> is.\<close>

type_synonym pydict = "string \<rightharpoonup> pyval"

definition dict_get :: "pydict \<Rightarrow> string \<Rightarrow> pyval" where
  \<comment> \<open>\<^verbatim>\<open>d.get(k)\<close>\<close>
  "dict_get d k = (case d k of None \<Rightarrow> PNone | Some v \<Rightarrow> v)"

definition dict_get_default :: "pydict \<Rightarrow> string \<Rightarrow> pyval \<Rightarrow> pyval" where
  \<comment> \<open>\<^verbatim>\<open>d.get(k, default)\<close>\<close>
  "dict_get_default d k dflt = (case d k of None \<Rightarrow> dflt | Some v \<Rightarrow> v)"

definition dict_index :: "pydict \<Rightarrow> string \<Rightarrow> exn + pyval" where
  \<comment> \<open>\<^verbatim>\<open>d[k]\<close>\<close>
  "dict_index d k = (case d k of None \<Rightarrow> Inl (KeyError k) | Some v \<Rightarrow> Inr v)"

definition dict_incr :: "(string \<times> nat) list \<Rightarrow> string \<Rightarrow> exn + (string \<times> nat) list" where
  \<comment> \<open>\<^verbatim>\<open>counts[k] += 1\<close>\<close>
  "dict_incr counts k =
     (case map_of counts k of
        None \<Rightarrow> Inl (KeyError k)
      | Some v \<Rightarrow> Inr (AList.update k (v + 1) counts))"

definition truthy :: "pyval \<Rightarrow> bool" where
  "truthy v = (case v of PNone \<Rightarrow> False | PStr s \<Rightarrow> s \<noteq> [] | PInt i \<Rightarrow> i \<noteq> 0)"

subsection \<open>\<^verbatim>\<open>str.lower\<close>, \<^verbatim>\<open>str.strip\<close>, \<^verbatim>\<open>str.startswith\<close>\<close>

definition lower_char :: "char \<Rightarrow> char" where
  \<comment> \<open>the upper-case letters below 256: A to Z, and U+00C0 to U+00DE without U+00D7\<close>
  "lower_char c =
     (if (65 \<le> (of_char c :: nat) \<and> (of_char c :: nat) \<le> 90) \<or>
         (192 \<le> (of_char c :: nat) \<and> (of_char c :: nat) \<le> 222 \<and> (of_char c :: nat) \<noteq> 215)
      then char_of ((of_char c :: nat) + 32) else c)"

definition py_lower :: "string \<Rightarrow> string" where
  "py_lower s = map lower_char s"

definition is_space :: "char \<Rightarrow> bool" where
  \<comment> \<open>the characters below 256 for which \<^verbatim>\<open>str.isspace\<close> holds, U+0085 and U+00A0 included\<close>
  "is_space c = ((of_char c :: nat) \<in> {9, 10, 11, 12, 13, 28, 29, 30, 31, 32, 133, 160})"

definition py_strip :: "string \<Rightarrow> string" where
  "py_strip s = rev (dropWhile is_space (rev (dropWhile is_space s)))"

definition startswith :: "string \<Rightarrow> string \<Rightarrow> bool" where
  "startswith s p = (take (length p) s = p)"

subsection \<open>\<^verbatim>\<open>str(x)\<close> and \<^verbatim>\<open>int(s)\<close>\<close>

definition digit_char :: "nat \<Rightarrow> char" where
  "digit_char d = char_of (48 + d)"

function str_nat :: "nat \<Rightarrow> string" where
  "str_nat n = (if n < 10 then [digit_char n] else str_nat (n div 10) @ [digit_char (n mod 10)])"
  by pat_completeness auto
termination
  by (relation "measure id") auto

declare str_nat.simps [simp del]

definition str_int :: "int \<Rightarrow> string" where
  "str_int i = (if i < 0 then CHR ''-'' # str_nat (nat (- i)) else str_nat (nat i))"

definition max_str_digits :: nat where
  "max_str_digits = 4300"

definition py_str :: "pyval \<Rightarrow> exn + string" where
  \<comment> \<open>\<^verbatim>\<open>str(v)\<close>: an integer of more than 4300 digits raises \<^verbatim>\<open>ValueError\<close>\<close>
  "py_str v =
     (case v of
        PNone \<Rightarrow> Inr ''None''
      | PStr s \<Rightarrow> Inr s
      | PInt i \<Rightarrow>
          if max_str_digits < length (str_nat (nat \<bar>i\<bar>)) then
            Inl (ValueError
              (''Exceeds the limit (4300 digits) for integer string conversion; '' @
               ''use sys.set_int_max_str_digits() to increase the limit''))
          else Inr (str_int i))"

definition digit_of :: "char \<Rightarrow> nat option" where
  "digit_of c =
     (if 48 \<le> (of_char c :: nat) \<and> (of_char c :: nat) \<le> 57
      then Some ((of_char c :: nat) - 48) else None)"

text \<open>The digits after the first one: a single underscore may stand between two digits.\<close>

fun parse_digits :: "nat \<Rightarrow> string \<Rightarrow> nat option" where
  "parse_digits acc [] = Some acc"
| "parse_digits acc (c # cs) =
     (if c = CHR ''_'' then
        (case cs of
           [] \<Rightarrow> None
         | d # ds \<Rightarrow>
             (case digit_of d of
                None \<Rightarrow> None
              | Some v \<Rightarrow> parse_digits (acc * 10 + v) ds))
      else
        (case digit_of c of
           None \<Rightarrow> None
         | Some v \<Rightarrow> parse_digits (acc * 10 + v) cs))"

definition parse_unsigned :: "string \<Rightarrow> nat option" where
  "parse_unsigned s =
     (case s of
        [] \<Rightarrow> None
      | c # cs \<Rightarrow> (case digit_of c of None \<Rightarrow> None | Some v \<Rightarrow> parse_digits v cs))"

definition is_digit :: "char \<Rightarrow> bool" where
  "is_digit c = (digit_of c \<noteq> None)"

definition is_int_space :: "char \<Rightarrow> bool" where
  \<comment> \<open>what \<^verbatim>\<open>int\<close> skips around the number: the C white space, and the spaces from 128 on,
      which it turns into blanks first; it does not skip U+001C to U+001F\<close>
  "is_int_space c = ((of_char c :: nat) \<in> {9, 10, 11, 12, 13, 32, 133, 160})"

definition py_int :: "string \<Rightarrow> int option" where
  \<comment> \<open>\<^verbatim>\<open>int(s)\<close> in base 10; \<open>None\<close> is \<^verbatim>\<open>ValueError\<close>, also raised for more than 4300 digits\<close>
  "py_int s =
     (case rev (dropWhile is_int_space (rev (dropWhile is_int_space s))) of
        [] \<Rightarrow> None
      | c # cs \<Rightarrow>
          (let digits = (if c = CHR ''+'' \<or> c = CHR ''-'' then cs else c # cs) in
           if max_str_digits < length (filter is_digit digits) then None
           else if c = CHR ''-'' then map_option (\<lambda>n. - int n) (parse_unsigned digits)
           else map_option int (parse_unsigned digits)))"

subsection \<open>\<^verbatim>\<open>str(e)\<close> of an exception, and \<^verbatim>\<open>value.lower()\<close>\<close>

text \<open>\<^verbatim>\<open>str\<close> of an \<^verbatim>\<open>HTTPException\<close> is Starlette's \<^verbatim>\<open>f"{status_code}: {detail}"\<close>,
  of a \<^verbatim>\<open>KeyError\<close> the \<^verbatim>\<open>repr\<close> of the key, of the others their message.\<close>

definition exn_str :: "exn \<Rightarrow> string" where
  "exn_str e =
     (case e of
        HTTPException status_code detail \<Rightarrow> str_nat status_code @ '': '' @ detail
      | KeyError k \<Rightarrow> [CHR 0x27] @ k @ [CHR 0x27]
      | AttributeError m \<Rightarrow> m
      | ValueError m \<Rightarrow> m
      | TypeError m \<Rightarrow> m
      | Exception m \<Rightarrow> m)"

definition lower_method :: "pyval \<Rightarrow> exn + string" where
  \<comment> \<open>\<^verbatim>\<open>v.lower()\<close>: only a string has the method\<close>
  "lower_method v =
     (case v of
        PStr s \<Rightarrow> Inr (py_lower s)
      | PNone \<Rightarrow> Inl (AttributeError (CHR 0x27 # ''NoneType' object has no attribute 'lower'' @ [CHR 0x27]))
      | PInt i \<Rightarrow> Inl (AttributeError (CHR 0x27 # ''int' object has no attribute 'lower'' @ [CHR 0x27])))"

section \<open>Buy/no-buy tally (lines 81 to 89)\<close>

definition would_buy_pie_init :: "(string \<times> nat) list" where
  "would_buy_pie_init = [(''yes'', 0), (''no'', 0)]"

definition would_buy_step :: "(string \<times> nat) list \<Rightarrow> pydict \<Rightarrow> exn + (string \<times> nat) list" where
  "would_buy_step would_buy_pie_counts detail =
     (case lower_method (dict_get_default detail ''decision'' (PStr [])) of
        Inl e \<Rightarrow> Inl e
      | Inr decision \<Rightarrow>
          if decision = ''yes'' then dict_incr would_buy_pie_counts ''yes''
          else if decision = ''no'' then dict_incr would_buy_pie_counts ''no''
          else Inr would_buy_pie_counts)"

fun would_buy_loop :: "(string \<times> nat) list \<Rightarrow> pydict list \<Rightarrow> exn + (string \<times> nat) list" where
  "would_buy_loop would_buy_pie_counts [] = Inr would_buy_pie_counts"
| "would_buy_loop would_buy_pie_counts (detail # rest) =
     (case would_buy_step would_buy_pie_counts detail of
        Inl e \<Rightarrow> Inl e
      | Inr would_buy_pie_counts' \<Rightarrow> would_buy_loop would_buy_pie_counts' rest)"

definition count_would_buy_pie :: "pydict list option \<Rightarrow> exn + (string \<times> nat) list" where
  \<comment> \<open>the argument is \<^verbatim>\<open>analysis_results\<close>: \<open>None\<close> when it has no key \<^verbatim>\<open>"details"\<close>\<close>
  "count_would_buy_pie analysis_results =
     (case analysis_results of
        None \<Rightarrow> Inr would_buy_pie_init
      | Some details \<Rightarrow> would_buy_loop would_buy_pie_init details)"

section \<open>Archetype tally (lines 91 to 103)\<close>

fun yes_pie_init_loop :: "(pyval \<times> nat) list \<Rightarrow> pyval list \<Rightarrow> (pyval \<times> nat) list" where
  "yes_pie_init_loop yes_pie_counts [] = yes_pie_counts"
| "yes_pie_init_loop yes_pie_counts (persona # rest) =
     yes_pie_init_loop (AList.update persona 0 yes_pie_counts) rest"

definition yes_pie_step :: "(pyval \<times> nat) list \<Rightarrow> pydict \<Rightarrow> (pyval \<times> nat) list" where
  \<comment> \<open>the increment is guarded by \<^verbatim>\<open>persona_type in yes_pie_counts\<close>\<close>
  "yes_pie_step yes_pie_counts classification =
     (let persona_type = dict_get_default classification ''assigned_archetype'' (PStr []) in
      case map_of yes_pie_counts persona_type of
        None \<Rightarrow> yes_pie_counts
      | Some v \<Rightarrow> AList.update persona_type (v + 1) yes_pie_counts)"

fun yes_pie_loop :: "(pyval \<times> nat) list \<Rightarrow> pydict list \<Rightarrow> (pyval \<times> nat) list" where
  "yes_pie_loop yes_pie_counts [] = yes_pie_counts"
| "yes_pie_loop yes_pie_counts (classification # rest) =
     yes_pie_loop (yes_pie_step yes_pie_counts classification) rest"

definition count_yes_pie :: "pyval list \<Rightarrow> pydict list \<Rightarrow> (pyval \<times> nat) list" where
  "count_yes_pie product_persona classified_yes =
     (let yes_pie_counts =
        (if product_persona \<noteq> [] then yes_pie_init_loop [] product_persona else [])
      in if classified_yes \<noteq> [] then yes_pie_loop yes_pie_counts classified_yes
         else yes_pie_counts)"

section \<open>Age bucketing (lines 105 to 136)\<close>

definition age_distribution_init :: "(string \<times> nat) list" where
  "age_distribution_init = [(''18-29'', 0), (''30-49'', 0), (''50-64'', 0), (''65+'', 0)]"

definition age_step :: "(string \<times> nat) list \<Rightarrow> pydict \<Rightarrow> exn + (string \<times> nat) list" where
  "age_step age_distribution detail =
     (let age = dict_get detail ''age'' in
      if age \<noteq> PNone then
        (case py_str age of
           Inl e \<Rightarrow> Inl e
         | Inr s \<Rightarrow>
        (let age_str = py_strip s in
         if age_str \<in> set [''18-29'', ''30-49'', ''50-64''] then
           dict_incr age_distribution age_str
         else if age_str = ''65'' \<or> startswith age_str ''65'' then
           dict_incr age_distribution ''65+''
         else
           (case py_int age_str of
              None \<Rightarrow> Inr age_distribution
            | Some age_val \<Rightarrow>
                if 18 \<le> age_val \<and> age_val \<le> 29 then dict_incr age_distribution ''18-29''
                else if 30 \<le> age_val \<and> age_val \<le> 49 then dict_incr age_distribution ''30-49''
                else if 50 \<le> age_val \<and> age_val \<le> 64 then dict_incr age_distribution ''50-64''
                else if age_val \<ge> 65 then dict_incr age_distribution ''65+''
                else Inr age_distribution)))
      else Inr age_distribution)"

fun age_loop :: "(string \<times> nat) list \<Rightarrow> pydict list \<Rightarrow> exn + (string \<times> nat) list" where
  "age_loop age_distribution [] = Inr age_distribution"
| "age_loop age_distribution (detail # rest) =
     (case age_step age_distribution detail of
        Inl e \<Rightarrow> Inl e
      | Inr age_distribution' \<Rightarrow> age_loop age_distribution' rest)"

definition count_age_distribution :: "pydict list option \<Rightarrow> exn + (string \<times> nat) list" where
  \<comment> \<open>the argument is \<^verbatim>\<open>analysis_results\<close>: \<open>None\<close> when it has no key \<^verbatim>\<open>"details"\<close>\<close>
  "count_age_distribution analysis_results =
     (case analysis_results of
        None \<Rightarrow> Inr age_distribution_init
      | Some details \<Rightarrow> age_loop age_distribution_init details)"

section \<open>Representative sampling (lines 138 to 165)\<close>

definition group_step :: "(pyval \<times> pyval list) list \<Rightarrow> pydict \<Rightarrow> (pyval \<times> pyval list) list" where
  \<comment> \<open>a new key gets the empty list, then the id is appended to the key's list\<close>
  "group_step personas_by_type classification =
     (let persona_type = dict_get_default classification ''assigned_archetype'' (PStr []);
          persona_id = dict_get_default classification ''persona_id'' (PStr [])
      in case map_of personas_by_type persona_type of
           None \<Rightarrow> AList.update persona_type [persona_id] personas_by_type
         | Some persona_ids \<Rightarrow>
             AList.update persona_type (persona_ids @ [persona_id]) personas_by_type)"

fun group_loop :: "(pyval \<times> pyval list) list \<Rightarrow> pydict list \<Rightarrow> (pyval \<times> pyval list) list" where
  "group_loop personas_by_type [] = personas_by_type"
| "group_loop personas_by_type (classification # rest) =
     group_loop (group_step personas_by_type classification) rest"

text \<open>\<^verbatim>\<open>random.choice(seq)\<close> returns \<^verbatim>\<open>seq[i]\<close> for an index below \<^verbatim>\<open>len(seq)\<close> that the
  generator decides. The generator is the one of the module \<^verbatim>\<open>random\<close>, shared by the whole
  process: the handler neither receives nor seeds it. Its state is the stream \<open>rng\<close> of the
  draws it will make together with the number \<open>k\<close> of calls made so far, the \<open>k\<close>-th call
  of \<^verbatim>\<open>random.choice\<close> reading \<open>rng k\<close>; the sampling returns the number of calls made
  when it ends, which is where the next request goes on. The handler calls
  \<^verbatim>\<open>random.choice\<close> on non-empty lists only (line 154).\<close>

definition random_choice :: "nat \<Rightarrow> 'a list \<Rightarrow> 'a" where
  "random_choice draw seq = seq ! (draw mod length seq)"

definition find_detail :: "pydict list \<Rightarrow> pyval \<Rightarrow> pydict option" where
  \<comment> \<open>the first record with \<^verbatim>\<open>detail.get("persona_id") == selected_id\<close>\<close>
  "find_detail details selected_id =
     List.find (\<lambda>detail. dict_get detail ''persona_id'' = selected_id) details"

fun select_loop ::
  "(nat \<Rightarrow> nat) \<Rightarrow> nat \<Rightarrow> (pyval \<times> pydict) list \<Rightarrow> (pyval \<times> pyval list) list \<Rightarrow> pydict list
   \<Rightarrow> (pyval \<times> pydict) list \<times> nat" where
  "select_loop rng k selected_consumer [] details = (selected_consumer, k)"
| "select_loop rng k selected_consumer ((persona_type, persona_ids) # rest) details =
     (if length persona_ids \<ge> 1 then
        (let selected_id = random_choice (rng k) persona_ids in
         case find_detail details selected_id of
           None \<Rightarrow> select_loop rng (k + 1) selected_consumer rest details
         | Some detail \<Rightarrow>
             select_loop rng (k + 1)
               (AList.update persona_type
                  [''persona_id'' \<mapsto> selected_id,
                   ''persona_summary'' \<mapsto> dict_get_default detail ''persona_summary'' (PStr [])]
                  selected_consumer)
               rest details)
      else select_loop rng k selected_consumer rest details)"

definition select_consumers_from ::
  "(nat \<Rightarrow> nat) \<Rightarrow> nat \<Rightarrow> pydict list \<Rightarrow> pydict list option
   \<Rightarrow> (pyval \<times> pydict) list \<times> nat" where
  \<comment> \<open>lines 139 to 165 with the generator at its \<open>k\<close>-th call\<close>
  "select_consumers_from rng k classified_yes analysis_results =
     (case analysis_results of
        None \<Rightarrow> ([], k)
      | Some details \<Rightarrow>
          if classified_yes \<noteq> [] then
            select_loop rng k [] (group_loop [] classified_yes) details
          else ([], k))"

definition select_consumers ::
  "(nat \<Rightarrow> nat) \<Rightarrow> pydict list \<Rightarrow> pydict list option \<Rightarrow> (pyval \<times> pydict) list" where
  \<comment> \<open>the selection of one request, \<open>rng\<close> being the generator's draws from its entry on\<close>
  "select_consumers rng classified_yes analysis_results =
     fst (select_consumers_from rng 0 classified_yes analysis_results)"

section \<open>The collaborators and the handler (lines 29 to 203)\<close>

text \<open>The six functions imported from \<^verbatim>\<open>utils\<close> are parameters: each returns a value or
  raises. The handler's result comes with the list of the collaborator calls it made.\<close>

datatype call =
    GenerateRelevantPersonas
  | GenerateProductPersonas
  | FindTopPersonas
  | AnalyzePurchaseDecisions
  | ClassifyYesPersonas
  | GeneratePersonaInsights

record product_persona_data =
  ppd_personas :: "pyval list option"
  ppd_age_ranges :: "pyval list option"
  ppd_gender :: "pyval option"

record collaborators =
  generate_relevant_personas :: "string \<Rightarrow> exn + pyval list"
  generate_product_personas :: "string \<Rightarrow> exn + product_persona_data"
  find_top_personas :: "pyval list \<Rightarrow> nat \<Rightarrow> exn + pyval list"
  analyze_purchase_decisions :: "string \<Rightarrow> pyval list \<Rightarrow> pyval \<Rightarrow> exn + pydict list option"
  classify_yes_personas :: "pydict list \<Rightarrow> pyval list \<Rightarrow> exn + pydict list"
  generate_persona_insights :: "string \<Rightarrow> pyval \<Rightarrow> pyval \<Rightarrow> exn + pyval"

record response =
  resp_would_buy_pie :: "(string \<times> nat) list"
  resp_yes_pie :: "(pyval \<times> nat) list"
  resp_age_distribution :: "(string \<times> nat) list"
  resp_consumer_insights :: "(pyval \<times> pydict) list"
  resp_target_age_ranges :: "pyval list"
  resp_target_gender :: pyval

fun yes_personas_of :: "pydict list \<Rightarrow> exn + pydict list" where
  \<comment> \<open>\<^verbatim>\<open>[p for p in details if p["decision"] == "yes"]\<close>\<close>
  "yes_personas_of [] = Inr []"
| "yes_personas_of (p # rest) =
     (case dict_index p ''decision'' of
        Inl e \<Rightarrow> Inl e
      | Inr decision \<Rightarrow>
          (case yes_personas_of rest of
             Inl e \<Rightarrow> Inl e
           | Inr yes_personas \<Rightarrow>
               Inr (if decision = PStr ''yes'' then p # yes_personas else yes_personas)))"

definition classify_stage ::
  "collaborators \<Rightarrow> pydict list option \<Rightarrow> pyval list \<Rightarrow> call list \<times> (exn + pydict list)" where
  \<comment> \<open>the body of the \<^verbatim>\<open>try\<close> of step 5\<close>
  "classify_stage c analysis_results product_persona =
     (case analysis_results of
        None \<Rightarrow> ([], Inl (KeyError ''details''))
      | Some details \<Rightarrow>
          (case yes_personas_of details of
             Inl e \<Rightarrow> ([], Inl e)
           | Inr yes_personas \<Rightarrow>
               ([ClassifyYesPersonas], classify_yes_personas c yes_personas product_persona)))"

fun insights_loop ::
  "collaborators \<Rightarrow> string \<Rightarrow> (pyval \<times> pydict) list \<Rightarrow> (pyval \<times> pydict) list
   \<Rightarrow> call list \<times> (exn + (pyval \<times> pydict) list)" where
  "insights_loop c product_description consumer_insights [] = ([], Inr consumer_insights)"
| "insights_loop c product_description consumer_insights ((persona_type, consumer_data) # rest) =
     (let persona_summary = dict_get_default consumer_data ''persona_summary'' (PStr []) in
      if truthy persona_summary then
        (case generate_persona_insights c product_description persona_type persona_summary of
           Inl e \<Rightarrow> ([GeneratePersonaInsights], Inl e)
         | Inr insights \<Rightarrow>
             (case insights_loop c product_description
                     (AList.update persona_type
                        [''persona_id'' \<mapsto> dict_get consumer_data ''persona_id'',
                         ''insights'' \<mapsto> insights]
                        consumer_insights)
                     rest of
                (calls, r) \<Rightarrow> (GeneratePersonaInsights # calls, r)))
      else insights_loop c product_description consumer_insights rest)"

definition aggregate_and_enrich ::
  "collaborators \<Rightarrow> (nat \<Rightarrow> nat) \<Rightarrow> string \<Rightarrow> pyval list \<Rightarrow> pyval list \<Rightarrow> pyval
   \<Rightarrow> pydict list option \<Rightarrow> pydict list \<Rightarrow> call list \<times> (exn + response)" where
  \<comment> \<open>lines 81 to 199\<close>
  "aggregate_and_enrich c rng product_description product_persona age_ranges gender
     analysis_results classified_yes =
     (case count_would_buy_pie analysis_results of
        Inl e \<Rightarrow> ([], Inl e)
      | Inr would_buy_pie_counts \<Rightarrow>
          (let yes_pie_counts = count_yes_pie product_persona classified_yes in
           case count_age_distribution analysis_results of
             Inl e \<Rightarrow> ([], Inl e)
           | Inr age_distribution \<Rightarrow>
               (let selected_consumer = select_consumers rng classified_yes analysis_results in
                case insights_loop c product_description [] selected_consumer of
                  (calls, Inl e) \<Rightarrow> (calls, Inl e)
                | (calls, Inr consumer_insights) \<Rightarrow>
                    (calls,
                     Inr \<lparr>resp_would_buy_pie = would_buy_pie_counts,
                          resp_yes_pie = yes_pie_counts,
                          resp_age_distribution = age_distribution,
                          resp_consumer_insights = consumer_insights,
                          resp_target_age_ranges = age_ranges,
                          resp_target_gender = gender\<rparr>))))"

definition analyze_product_body ::
  "collaborators \<Rightarrow> (nat \<Rightarrow> nat) \<Rightarrow> string \<Rightarrow> call list \<times> (exn + response)" where
  \<comment> \<open>the body of the outer \<^verbatim>\<open>try\<close>, lines 33 to 199\<close>
  "analyze_product_body c rng product_description =
     (if product_description = [] then
        ([], Inl (HTTPException 400 ''Missing 'product_description' in request body''))
      else
        (case generate_relevant_personas c product_description of
           Inl e \<Rightarrow> ([GenerateRelevantPersonas], Inl e)
         | Inr personas \<Rightarrow>
        (case generate_product_personas c product_description of
           Inl e \<Rightarrow> ([GenerateRelevantPersonas, GenerateProductPersonas], Inl e)
         | Inr product_persona_data \<Rightarrow>
        (let product_persona =
               (case ppd_personas product_persona_data of None \<Rightarrow> [] | Some v \<Rightarrow> v);
             age_ranges =
               (case ppd_age_ranges product_persona_data of None \<Rightarrow> [] | Some v \<Rightarrow> v);
             gender =
               (case ppd_gender product_persona_data of None \<Rightarrow> PStr ''Both'' | Some v \<Rightarrow> v)
         in
        (case find_top_personas c personas 10 of
           Inl e \<Rightarrow>
             ([GenerateRelevantPersonas, GenerateProductPersonas, FindTopPersonas],
              Inl (HTTPException 500 (''Error finding top personas: '' @ exn_str e)))
         | Inr topk \<Rightarrow>
        (case analyze_purchase_decisions c product_description age_ranges gender of
           Inl e \<Rightarrow>
             ([GenerateRelevantPersonas, GenerateProductPersonas, FindTopPersonas,
               AnalyzePurchaseDecisions],
              Inl (HTTPException 500 (''Error analyzing purchase decisions: '' @ exn_str e)))
         | Inr analysis_results \<Rightarrow>
        (case classify_stage c analysis_results product_persona of
           (calls, Inl e) \<Rightarrow>
             ([GenerateRelevantPersonas, GenerateProductPersonas, FindTopPersonas,
               AnalyzePurchaseDecisions] @ calls,
              Inl (HTTPException 500 (''Error classifying yes personas: '' @ exn_str e)))
         | (calls, Inr classified_yes) \<Rightarrow>
        (case aggregate_and_enrich c rng product_description product_persona age_ranges gender
                analysis_results classified_yes of
           (calls', r) \<Rightarrow>
             ([GenerateRelevantPersonas, GenerateProductPersonas, FindTopPersonas,
               AnalyzePurchaseDecisions] @ calls @ calls', r)))))))))"

definition analyze_product ::
  "collaborators \<Rightarrow> (nat \<Rightarrow> nat) \<Rightarrow> string \<Rightarrow> call list \<times> (exn + response)" where
  \<comment> \<open>\<^verbatim>\<open>except Exception as e\<close> of line 201 around the body: \<open>Inl\<close> is the exception
      the handler leaves with, its status and detail becoming the HTTP error\<close>
  "analyze_product c rng product_description =
     (case analyze_product_body c rng product_description of
        (calls, Inl e) \<Rightarrow>
          (calls, Inl (HTTPException 500 (''Internal server error: '' @ exn_str e)))
      | (calls, Inr result) \<Rightarrow> (calls, Inr result))"

section \<open>Aggregation on a store of objects (lines 81 to 136)\<close>

text \<open>Python's dictionaries and lists are mutable objects, and the handler's variables hold
  references to them. To tell what the aggregation changes, lines 81 to 136 are written once
  more on a store: the list of the objects that exist, a reference being a position in it.
  Strings, integers and \<^verbatim>\<open>None\<close> are immutable and stay values. A dictionary display
  (lines 82, 92, 106) puts a new object at the end of the store; an item assignment
  (\<^verbatim>\<open>counts[key] += 1\<close>, \<^verbatim>\<open>counts[key] = 0\<close>) replaces the object at the reference of
  \<^verbatim>\<open>counts\<close>. A \<^verbatim>\<open>for\<close> loop takes the items of its list from the store when it starts, and
  its body is the step of the sections above, applied to what the store holds at the
  references. An object of another kind than the code reads at a reference is outside the
  model; the run ends there with a \<^verbatim>\<open>TypeError\<close>.\<close>

type_synonym ref = nat

datatype obj =
    Record pydict                       \<comment> \<open>a decision record or a classification\<close>
  | Items "ref list"                    \<comment> \<open>a list of records\<close>
  | Labels "pyval list"                 \<comment> \<open>\<^verbatim>\<open>product_persona\<close>, a list of strings\<close>
  | Results "ref option"                \<comment> \<open>\<^verbatim>\<open>analysis_results\<close>: its entry \<^verbatim>\<open>"details"\<close>, if any\<close>
  | Counters "(string \<times> nat) list"      \<comment> \<open>\<^verbatim>\<open>would_buy_pie_counts\<close>, \<^verbatim>\<open>age_distribution\<close>\<close>
  | LabelCounters "(pyval \<times> nat) list"  \<comment> \<open>\<^verbatim>\<open>yes_pie_counts\<close>\<close>

type_synonym store = "obj list"

definition fetch :: "store \<Rightarrow> ref \<Rightarrow> obj option" where
  "fetch s r = (if r < length s then Some (s ! r) else None)"

definition allocate :: "store \<Rightarrow> obj \<Rightarrow> store \<times> ref" where
  "allocate s ob = (s @ [ob], length s)"

definition assign :: "store \<Rightarrow> ref \<Rightarrow> obj \<Rightarrow> store" where
  "assign s r ob = s[r := ob]"

definition wrong_object :: exn where
  "wrong_object = TypeError ''an object of another type''"

definition details_in :: "store \<Rightarrow> ref \<Rightarrow> exn + ref list option" where
  \<comment> \<open>\<^verbatim>\<open>analysis_results["details"]\<close> under the guard of lines 83 and 113\<close>
  "details_in s analysis_results =
     (case fetch s analysis_results of
        Some (Results None) \<Rightarrow> Inr None
      | Some (Results (Some details)) \<Rightarrow>
          (case fetch s details of
             Some (Items rs) \<Rightarrow> Inr (Some rs)
           | _ \<Rightarrow> Inl wrong_object)
      | _ \<Rightarrow> Inl wrong_object)"

definition labels_in :: "store \<Rightarrow> ref \<Rightarrow> exn + pyval list" where
  "labels_in s product_persona =
     (case fetch s product_persona of
        Some (Labels ls) \<Rightarrow> Inr ls
      | _ \<Rightarrow> Inl wrong_object)"

definition items_in :: "store \<Rightarrow> ref \<Rightarrow> exn + ref list" where
  "items_in s classified_yes =
     (case fetch s classified_yes of
        Some (Items rs) \<Rightarrow> Inr rs
      | _ \<Rightarrow> Inl wrong_object)"

fun would_buy_loop_store :: "store \<Rightarrow> ref \<Rightarrow> ref list \<Rightarrow> store \<times> exn option" where
  "would_buy_loop_store s counts [] = (s, None)"
| "would_buy_loop_store s counts (r # rest) =
     (case fetch s r of
        Some (Record detail) \<Rightarrow>
          (case fetch s counts of
             Some (Counters would_buy_pie_counts) \<Rightarrow>
               (case would_buy_step would_buy_pie_counts detail of
                  Inl e \<Rightarrow> (s, Some e)
                | Inr would_buy_pie_counts' \<Rightarrow>
                    would_buy_loop_store (assign s counts (Counters would_buy_pie_counts'))
                      counts rest)
           | _ \<Rightarrow> (s, Some wrong_object))
      | _ \<Rightarrow> (s, Some wrong_object))"

definition would_buy_pie_stage :: "store \<Rightarrow> ref \<Rightarrow> store \<times> (exn + ref)" where
  \<comment> \<open>lines 82 to 89\<close>
  "would_buy_pie_stage s analysis_results =
     (case allocate s (Counters would_buy_pie_init) of
        (s1, would_buy_pie_counts) \<Rightarrow>
          (case details_in s1 analysis_results of
             Inl e \<Rightarrow> (s1, Inl e)
           | Inr None \<Rightarrow> (s1, Inr would_buy_pie_counts)
           | Inr (Some details) \<Rightarrow>
               (case would_buy_loop_store s1 would_buy_pie_counts details of
                  (s2, Some e) \<Rightarrow> (s2, Inl e)
                | (s2, None) \<Rightarrow> (s2, Inr would_buy_pie_counts))))"

fun yes_pie_init_store :: "store \<Rightarrow> ref \<Rightarrow> pyval list \<Rightarrow> store \<times> exn option" where
  "yes_pie_init_store s counts [] = (s, None)"
| "yes_pie_init_store s counts (persona # rest) =
     (case fetch s counts of
        Some (LabelCounters yes_pie_counts) \<Rightarrow>
          yes_pie_init_store
            (assign s counts (LabelCounters (AList.update persona 0 yes_pie_counts))) counts rest
      | _ \<Rightarrow> (s, Some wrong_object))"

fun yes_pie_loop_store :: "store \<Rightarrow> ref \<Rightarrow> ref list \<Rightarrow> store \<times> exn option" where
  "yes_pie_loop_store s counts [] = (s, None)"
| "yes_pie_loop_store s counts (r # rest) =
     (case fetch s r of
        Some (Record classification) \<Rightarrow>
          (case fetch s counts of
             Some (LabelCounters yes_pie_counts) \<Rightarrow>
               yes_pie_loop_store
                 (assign s counts (LabelCounters (yes_pie_step yes_pie_counts classification)))
                 counts rest
           | _ \<Rightarrow> (s, Some wrong_object))
      | _ \<Rightarrow> (s, Some wrong_object))"

definition yes_pie_stage :: "store \<Rightarrow> ref \<Rightarrow> ref \<Rightarrow> store \<times> (exn + ref)" where
  \<comment> \<open>lines 92 to 103\<close>
  "yes_pie_stage s product_persona classified_yes =
     (case allocate s (LabelCounters []) of
        (s1, yes_pie_counts) \<Rightarrow>
          (case labels_in s1 product_persona of
             Inl e \<Rightarrow> (s1, Inl e)
           | Inr labels \<Rightarrow>
               (case (if labels \<noteq> [] then yes_pie_init_store s1 yes_pie_counts labels
                      else (s1, None)) of
                  (s2, Some e) \<Rightarrow> (s2, Inl e)
                | (s2, None) \<Rightarrow>
                    (case items_in s2 classified_yes of
                       Inl e \<Rightarrow> (s2, Inl e)
                     | Inr classifications \<Rightarrow>
                         (case (if classifications \<noteq> [] then
                                  yes_pie_loop_store s2 yes_pie_counts classifications
                                else (s2, None)) of
                            (s3, Some e) \<Rightarrow> (s3, Inl e)
                          | (s3, None) \<Rightarrow> (s3, Inr yes_pie_counts))))))"

fun age_loop_store :: "store \<Rightarrow> ref \<Rightarrow> ref list \<Rightarrow> store \<times> exn option" where
  "age_loop_store s counts [] = (s, None)"
| "age_loop_store s counts (r # rest) =
     (case fetch s r of
        Some (Record detail) \<Rightarrow>
          (case fetch s counts of
             Some (Counters age_distribution) \<Rightarrow>
               (case age_step age_distribution detail of
                  Inl e \<Rightarrow> (s, Some e)
                | Inr age_distribution' \<Rightarrow>
                    age_loop_store (assign s counts (Counters age_distribution')) counts rest)
           | _ \<Rightarrow> (s, Some wrong_object))
      | _ \<Rightarrow> (s, Some wrong_object))"

definition age_distribution_stage :: "store \<Rightarrow> ref \<Rightarrow> store \<times> (exn + ref)" where
  \<comment> \<open>lines 106 to 136\<close>
  "age_distribution_stage s analysis_results =
     (case allocate s (Counters age_distribution_init) of
        (s1, age_distribution) \<Rightarrow>
          (case details_in s1 analysis_results of
             Inl e \<Rightarrow> (s1, Inl e)
           | Inr None \<Rightarrow> (s1, Inr age_distribution)
           | Inr (Some details) \<Rightarrow>
               (case age_loop_store s1 age_distribution details of
                  (s2, Some e) \<Rightarrow> (s2, Inl e)
                | (s2, None) \<Rightarrow> (s2, Inr age_distribution))))"

definition aggregate_store ::
  "store \<Rightarrow> ref \<Rightarrow> ref \<Rightarrow> ref \<Rightarrow> store \<times> (exn + ref \<times> ref \<times> ref)" where
  \<comment> \<open>the store after lines 82 to 136, and the references that \<^verbatim>\<open>would_buy_pie_counts\<close>,
      \<^verbatim>\<open>yes_pie_counts\<close> and \<^verbatim>\<open>age_distribution\<close> hold then\<close>
  "aggregate_store s analysis_results product_persona classified_yes =
     (case would_buy_pie_stage s analysis_results of
        (s1, Inl e) \<Rightarrow> (s1, Inl e)
      | (s1, Inr would_buy_pie_counts) \<Rightarrow>
          (case yes_pie_stage s1 product_persona classified_yes of
             (s2, Inl e) \<Rightarrow> (s2, Inl e)
           | (s2, Inr yes_pie_counts) \<Rightarrow>
               (case age_distribution_stage s2 analysis_results of
                  (s3, Inl e) \<Rightarrow> (s3, Inl e)
                | (s3, Inr age_distribution) \<Rightarrow>
                    (s3, Inr (would_buy_pie_counts, yes_pie_counts, age_distribution)))))"

section \<open>The end-to-end scenario of the specification (section 8)\<close>

text \<open>Four decision records, three \<^verbatim>\<open>yes\<close> (ages 25, 34, 70) and one \<^verbatim>\<open>no\<close> (age 40); the
  classifier puts two of the yes-records into \<^verbatim>\<open>EcoConscious\<close> and one into \<^verbatim>\<open>Budget\<close>.\<close>

definition scenario_details :: "pydict list" where
  "scenario_details =
     [[''persona_id'' \<mapsto> PStr ''p1'', ''decision'' \<mapsto> PStr ''yes'', ''age'' \<mapsto> PInt 25,
       ''persona_summary'' \<mapsto> PStr ''commutes by bike''],
      [''persona_id'' \<mapsto> PStr ''p2'', ''decision'' \<mapsto> PStr ''yes'', ''age'' \<mapsto> PInt 34,
       ''persona_summary'' \<mapsto> PStr ''hikes every weekend''],
      [''persona_id'' \<mapsto> PStr ''p3'', ''decision'' \<mapsto> PStr ''yes'', ''age'' \<mapsto> PInt 70,
       ''persona_summary'' \<mapsto> PStr ''compares prices''],
      [''persona_id'' \<mapsto> PStr ''p4'', ''decision'' \<mapsto> PStr ''no'', ''age'' \<mapsto> PInt 40,
       ''persona_summary'' \<mapsto> PStr ''owns three bottles'']]"

definition scenario_classified :: "pydict list" where
  "scenario_classified =
     [[''persona_id'' \<mapsto> PStr ''p1'', ''assigned_archetype'' \<mapsto> PStr ''EcoConscious''],
      [''persona_id'' \<mapsto> PStr ''p2'', ''assigned_archetype'' \<mapsto> PStr ''EcoConscious''],
      [''persona_id'' \<mapsto> PStr ''p3'', ''assigned_archetype'' \<mapsto> PStr ''Budget'']]"

definition scenario_collaborators :: collaborators where
  "scenario_collaborators =
     \<lparr>generate_relevant_personas = (\<lambda>description. Inr [PStr ''seed persona'']),
      generate_product_personas = (\<lambda>description.
        Inr \<lparr>ppd_personas = Some [PStr ''EcoConscious'', PStr ''Budget''],
             ppd_age_ranges = Some [PStr ''18-29'', PStr ''30-49''],
             ppd_gender = Some (PStr ''Both'')\<rparr>),
      find_top_personas = (\<lambda>personas top_k. Inr []),
      analyze_purchase_decisions = (\<lambda>description ages g. Inr (Some scenario_details)),
      classify_yes_personas = (\<lambda>yes_personas archetypes. Inr scenario_classified),
      generate_persona_insights = (\<lambda>description archetype summary. Inr (PStr ''insights''))\<rparr>"

definition first_member :: "nat \<Rightarrow> nat" where
  \<comment> \<open>a source of randomness whose every draw is 0\<close>
  "first_member k = 0"

text \<open>The same scenario with a classifier that answers with an archetype the
  product-persona generator never declared.\<close>

definition drifted_classified :: "pydict list" where
  "drifted_classified =
     [[''persona_id'' \<mapsto> PStr ''p1'', ''assigned_archetype'' \<mapsto> PStr ''EcoConscious''],
      [''persona_id'' \<mapsto> PStr ''p2'', ''assigned_archetype'' \<mapsto> PStr ''EcoConscious''],
      [''persona_id'' \<mapsto> PStr ''p3'', ''assigned_archetype'' \<mapsto> PStr ''Luxury'']]"

definition drifted_collaborators :: collaborators where
  "drifted_collaborators =
     scenario_collaborators
       \<lparr>classify_yes_personas := (\<lambda>yes_personas archetypes. Inr drifted_classified)\<rparr>"

text \<open>Collaborators of the scenario with one failing stage each.\<close>

definition failing_find :: collaborators where
  "failing_find =
     scenario_collaborators
       \<lparr>find_top_personas := (\<lambda>personas top_k. Inl (Exception ''index offline''))\<rparr>"

definition failing_analysis :: collaborators where
  "failing_analysis =
     scenario_collaborators
       \<lparr>analyze_purchase_decisions := (\<lambda>description ages g. Inl (Exception ''model timeout''))\<rparr>"

definition failing_classifier :: collaborators where
  "failing_classifier =
     scenario_collaborators
       \<lparr>classify_yes_personas := (\<lambda>yes_personas archetypes. Inl (Exception ''bad JSON''))\<rparr>"

text \<open>The decision simulator answering with a record whose decision is \<^verbatim>\<open>None\<close>.\<close>

definition null_decision_details :: "pydict list" where
  "null_decision_details =
     [[''persona_id'' \<mapsto> PStr ''p1'', ''decision'' \<mapsto> PStr ''yes'', ''age'' \<mapsto> PInt 25,
       ''persona_summary'' \<mapsto> PStr ''commutes by bike''],
      [''persona_id'' \<mapsto> PStr ''p2'', ''decision'' \<mapsto> PNone, ''age'' \<mapsto> PInt 34,
       ''persona_summary'' \<mapsto> PStr ''hikes every weekend'']]"

definition null_decision_collaborators :: collaborators where
  "null_decision_collaborators =
     scenario_collaborators
       \<lparr>analyze_purchase_decisions := (\<lambda>description ages g. Inr (Some null_decision_details))\<rparr>"

text \<open>The decision simulator answering with three records, the second with the decision
  \<^verbatim>\<open>None\<close> between a \<^verbatim>\<open>yes\<close> and a \<^verbatim>\<open>no\<close>.\<close>

definition partly_null_details :: "pydict list" where
  "partly_null_details =
     [[''persona_id'' \<mapsto> PStr ''p1'', ''decision'' \<mapsto> PStr ''yes'', ''age'' \<mapsto> PInt 25,
       ''persona_summary'' \<mapsto> PStr ''commutes by bike''],
      [''persona_id'' \<mapsto> PStr ''p2'', ''decision'' \<mapsto> PNone, ''age'' \<mapsto> PInt 34,
       ''persona_summary'' \<mapsto> PStr ''hikes every weekend''],
      [''persona_id'' \<mapsto> PStr ''p4'', ''decision'' \<mapsto> PStr ''no'', ''age'' \<mapsto> PInt 40,
       ''persona_summary'' \<mapsto> PStr ''owns three bottles'']]"

definition partly_null_collaborators :: collaborators where
  "partly_null_collaborators =
     scenario_collaborators
       \<lparr>analyze_purchase_decisions := (\<lambda>description ages g. Inr (Some partly_null_details)),
        classify_yes_personas := (\<lambda>yes_personas archetypes.
          Inr [[''persona_id'' \<mapsto> PStr ''p1'', ''assigned_archetype'' \<mapsto> PStr ''EcoConscious'']])\<rparr>"





text \<open>The objects of the scenario when the handler reaches line 81: the four decision
  records, their list, \<^verbatim>\<open>analysis_results\<close> (reference 5), \<^verbatim>\<open>product_persona\<close>
  (reference 6), the three classifications and their list \<^verbatim>\<open>classified_yes\<close>
  (reference 10).\<close>

definition scenario_store :: store where
  "scenario_store =
     map Record scenario_details @
     [Items [0, 1, 2, 3], Results (Some 4), Labels [PStr ''EcoConscious'', PStr ''Budget'']] @
     map Record scenario_classified @
     [Items [7, 8, 9]]"

section \<open>Notions used to state the properties\<close>



text \<open>The decision of a record as the tally compares it: in lower case; \<open>None\<close> when the
  field holds a value that is not a string.\<close>

definition normalized_decision :: "pydict \<Rightarrow> string option" where
  "normalized_decision detail =
     (case dict_get_default detail ''decision'' (PStr []) of
        PStr s \<Rightarrow> Some (py_lower s)
      | _ \<Rightarrow> None)"




text \<open>What a store holds for the aggregation: the decision set, the declared labels and
  the classifications behind the three references, and whether the objects there are of
  the kinds that lines 81 to 136 read.\<close>

definition is_record :: "store \<Rightarrow> ref \<Rightarrow> bool" where
  "is_record s r = (case fetch s r of Some (Record d) \<Rightarrow> True | _ \<Rightarrow> False)"

definition record_of :: "store \<Rightarrow> ref \<Rightarrow> pydict" where
  "record_of s r = (case fetch s r of Some (Record d) \<Rightarrow> d | _ \<Rightarrow> Map.empty)"

definition decision_set :: "store \<Rightarrow> ref \<Rightarrow> pydict list option" where
  "decision_set s analysis_results =
     (case details_in s analysis_results of
        Inr (Some rs) \<Rightarrow> Some (map (record_of s) rs)
      | _ \<Rightarrow> None)"

definition declared_labels :: "store \<Rightarrow> ref \<Rightarrow> pyval list" where
  "declared_labels s product_persona =
     (case labels_in s product_persona of Inr ls \<Rightarrow> ls | Inl e \<Rightarrow> [])"

definition classifications :: "store \<Rightarrow> ref \<Rightarrow> pydict list" where
  "classifications s classified_yes =
     (case items_in s classified_yes of Inr rs \<Rightarrow> map (record_of s) rs | Inl e \<Rightarrow> [])"

definition well_formed :: "store \<Rightarrow> ref \<Rightarrow> ref \<Rightarrow> ref \<Rightarrow> bool" where
  "well_formed s analysis_results product_persona classified_yes =
     ((case details_in s analysis_results of
         Inl e \<Rightarrow> False
       | Inr None \<Rightarrow> True
       | Inr (Some rs) \<Rightarrow> list_all (is_record s) rs)
      \<and> (case labels_in s product_persona of Inl e \<Rightarrow> False | Inr ls \<Rightarrow> True)
      \<and> (case items_in s classified_yes of
            Inl e \<Rightarrow> False
          | Inr rs \<Rightarrow> list_all (is_record s) rs))"

text \<open>The three mappings that a run of the aggregation leaves, read from its store; and
  the three mappings as the functions of the sections above give them from the decision
  set, the labels and the classifications alone.\<close>

definition mappings ::
  "store \<times> (exn + ref \<times> ref \<times> ref) \<Rightarrow> exn + obj option \<times> obj option \<times> obj option" where
  "mappings run =
     (case run of
        (s, Inl e) \<Rightarrow> Inl e
      | (s, Inr (w, y, a)) \<Rightarrow> Inr (fetch s w, fetch s y, fetch s a))"

definition aggregate ::
  "pydict list option \<Rightarrow> pyval list \<Rightarrow> pydict list
   \<Rightarrow> exn + obj option \<times> obj option \<times> obj option" where
  "aggregate D L C =
     (case count_would_buy_pie D of
        Inl e \<Rightarrow> Inl e
      | Inr w \<Rightarrow>
          (case count_age_distribution D of
             Inl e \<Rightarrow> Inl e
           | Inr a \<Rightarrow>
               Inr (Some (Counters w), Some (LabelCounters (count_yes_pie L C)),
                    Some (Counters a))))"

section \<open>Decimal strings: \<^verbatim>\<open>int(str(n)) == n\<close>\<close>


lemma digit_of_digit_char: "d < 10 \<Longrightarrow> digit_of (digit_char d) = Some d"
  by (simp add: digit_of_def digit_char_def)


lemma is_digit_digit_char: "d < 10 \<Longrightarrow> is_digit (digit_char d)"
  by (simp add: is_digit_def digit_of_digit_char)

lemma is_digit_not_special:
  "is_digit c \<Longrightarrow>
   c \<noteq> CHR ''_'' \<and> c \<noteq> CHR ''+'' \<and> c \<noteq> CHR ''-'' \<and> \<not> is_space c \<and> \<not> is_int_space c"
  by (auto simp: is_digit_def digit_of_def is_space_def is_int_space_def split: if_splits)

lemma parse_digits_snoc:
  "list_all is_digit xs \<Longrightarrow> d < 10 \<Longrightarrow>
   parse_digits acc (xs @ [digit_char d]) = map_option (\<lambda>a. a * 10 + d) (parse_digits acc xs)"
proof (induction xs arbitrary: acc)
  case Nil
  then show ?case
    using is_digit_not_special [OF is_digit_digit_char [of d]]
    by (simp add: digit_of_digit_char)
next
  case (Cons c cs)
  then obtain v where v: "digit_of c = Some v" by (auto simp: is_digit_def)
  from Cons.prems have "c \<noteq> CHR ''_''" using is_digit_not_special [of c] by simp
  with Cons v show ?case by simp
qed

lemma parse_unsigned_snoc:
  "list_all is_digit xs \<Longrightarrow> xs \<noteq> [] \<Longrightarrow> d < 10 \<Longrightarrow>
   parse_unsigned (xs @ [digit_char d]) = map_option (\<lambda>a. a * 10 + d) (parse_unsigned xs)"
  by (cases xs) (auto simp: parse_unsigned_def parse_digits_snoc is_digit_def)

lemma str_nat_digits: "list_all is_digit (str_nat n) \<and> str_nat n \<noteq> []"
proof (induction n rule: str_nat.induct)
  case (1 n)
  show ?case
  proof (cases "n < 10")
    case True
    then show ?thesis by (subst (1 2) str_nat.simps) (simp add: is_digit_digit_char)
  next
    case False
    with 1 show ?thesis by (subst (1 2) str_nat.simps) (simp add: is_digit_digit_char)
  qed
qed

lemma parse_unsigned_str_nat: "parse_unsigned (str_nat n) = Some n"
proof (induction n rule: str_nat.induct)
  case (1 n)
  show ?case
  proof (cases "n < 10")
    case True
    then show ?thesis
      by (subst str_nat.simps) (simp add: parse_unsigned_def digit_of_digit_char)
  next
    case False
    with 1 have ih: "parse_unsigned (str_nat (n div 10)) = Some (n div 10)" by simp
    have "parse_unsigned (str_nat (n div 10) @ [digit_char (n mod 10)]) = Some (n div 10 * 10 + n mod 10)"
      using str_nat_digits [of "n div 10"] by (simp add: parse_unsigned_snoc ih)
    with False show ?thesis by (subst str_nat.simps) simp
  qed
qed

lemma strip_id:
  "s \<noteq> [] \<Longrightarrow> \<not> P (hd s) \<Longrightarrow> \<not> P (last s) \<Longrightarrow> rev (dropWhile P (rev (dropWhile P s))) = s"
proof -
  assume a: "s \<noteq> []" "\<not> P (hd s)" "\<not> P (last s)"
  then have 1: "dropWhile P s = s" by (cases s) auto
  from a have "rev s \<noteq> []" "\<not> P (hd (rev s))" by (auto simp: hd_rev)
  then have 2: "dropWhile P (rev s) = rev s" by (cases "rev s") auto
  show ?thesis by (simp add: 1 2)
qed

lemma py_strip_id: "s \<noteq> [] \<Longrightarrow> \<not> is_space (hd s) \<Longrightarrow> \<not> is_space (last s) \<Longrightarrow> py_strip s = s"
  unfolding py_strip_def by (rule strip_id)

lemma str_int_ends:
  "str_int i \<noteq> [] \<and> \<not> is_space (hd (str_int i)) \<and> \<not> is_space (last (str_int i))
   \<and> \<not> is_int_space (hd (str_int i)) \<and> \<not> is_int_space (last (str_int i))"
proof -
  have ne: "\<And>n. str_nat n \<noteq> []"
    using str_nat_digits by auto
  have e: "is_digit (hd (str_nat n)) \<and> is_digit (last (str_nat n))" for n
  proof -
    have "list_all is_digit (str_nat n)" "str_nat n \<noteq> []" using str_nat_digits by auto
    then show ?thesis by (auto simp: list_all_iff)
  qed
  have m: "\<not> is_space (CHR ''-'')" "\<not> is_int_space (CHR ''-'')"
    by (simp_all add: is_space_def is_int_space_def)
  show ?thesis
    using e [of "nat i"] e [of "nat (- i)"] ne m is_digit_not_special
    by (auto simp: str_int_def)
qed

lemma py_strip_str_int: "py_strip (str_int i) = str_int i"
  using str_int_ends [of i] by (intro py_strip_id) auto

lemma int_strip_str_int:
  "rev (dropWhile is_int_space (rev (dropWhile is_int_space (str_int i)))) = str_int i"
  using str_int_ends [of i] by (intro strip_id) auto

lemma filter_digits: "list_all is_digit xs \<Longrightarrow> filter is_digit xs = xs"
  by (induction xs) auto


lemma str_nat_ge_power: "0 < n \<Longrightarrow> 10 ^ (length (str_nat n) - 1) \<le> n"
proof (induction n rule: str_nat.induct)
  case (1 n)
  show ?case
  proof (cases "n < 10")
    case True
    with "1.prems" show ?thesis by (subst str_nat.simps) simp
  next
    case False
    then have pos: "0 < n div 10" by simp
    with 1 False have ih: "10 ^ (length (str_nat (n div 10)) - 1) \<le> n div 10" by simp
    have ne: "length (str_nat (n div 10)) \<noteq> 0" using str_nat_digits [of "n div 10"] by simp
    have "(10::nat) ^ length (str_nat (n div 10)) = 10 * 10 ^ (length (str_nat (n div 10)) - 1)"
      using ne by (cases "length (str_nat (n div 10))") simp_all
    also have "\<dots> \<le> 10 * (n div 10)" using ih by simp
    also have "\<dots> \<le> n" by simp
    finally show ?thesis using False by (subst str_nat.simps) simp
  qed
qed


lemma few_digits: "n < 10 ^ k \<Longrightarrow> 0 < k \<Longrightarrow> length (str_nat n) \<le> k"
proof (cases "n = 0")
  case True
  assume "0 < k"
  with True show ?thesis by (subst str_nat.simps) simp
next
  case False
  assume "n < 10 ^ k"
  moreover have "10 ^ (length (str_nat n) - 1) \<le> n" using str_nat_ge_power [of n] False by simp
  ultimately have "(10::nat) ^ (length (str_nat n) - 1) < 10 ^ k" by (rule le_less_trans [rotated])
  then show ?thesis by simp
qed

lemma nat_abs_less_power: "\<bar>i\<bar> < 10 ^ k \<Longrightarrow> nat \<bar>i\<bar> < 10 ^ k"
  by (metis nat_less_iff abs_ge_zero of_nat_numeral of_nat_power)


lemma py_str_small: "\<bar>i\<bar> < 10 ^ max_str_digits \<Longrightarrow> py_str (PInt i) = Inr (str_int i)"
proof -
  assume "\<bar>i\<bar> < 10 ^ max_str_digits"
  then have "nat \<bar>i\<bar> < 10 ^ max_str_digits" by (rule nat_abs_less_power)
  moreover have "0 < max_str_digits" by (simp add: max_str_digits_def)
  ultimately have "length (str_nat (nat \<bar>i\<bar>)) \<le> max_str_digits" by (rule few_digits)
  then show ?thesis by (simp add: py_str_def)
qed


lemma py_int_str_int:
  assumes "\<bar>i\<bar> < 10 ^ max_str_digits"
  shows "py_int (str_int i) = Some i"
proof -
  have "nat \<bar>i\<bar> < 10 ^ max_str_digits" using assms by (rule nat_abs_less_power)
  moreover have "0 < max_str_digits" by (simp add: max_str_digits_def)
  ultimately have len: "length (str_nat (nat \<bar>i\<bar>)) \<le> max_str_digits" by (rule few_digits)
  show ?thesis
  proof (cases "i < 0")
    case True
    then have a: "nat \<bar>i\<bar> = nat (- i)" by simp
    have "filter is_digit (str_nat (nat (- i))) = str_nat (nat (- i))"
      using str_nat_digits by (intro filter_digits) simp
    with len a have "\<not> max_str_digits < length (filter is_digit (str_nat (nat (- i))))" by simp
    moreover have "str_int i = CHR ''-'' # str_nat (nat (- i))" using True by (simp add: str_int_def)
    ultimately show ?thesis
      unfolding py_int_def int_strip_str_int using True
      by (simp add: parse_unsigned_str_nat)
  next
    case False
    then have a: "nat \<bar>i\<bar> = nat i" by simp
    obtain c cs where s: "str_nat (nat i) = c # cs"
      using str_nat_digits [of "nat i"] by (cases "str_nat (nat i)") auto
    have "is_digit c" using str_nat_digits [of "nat i"] s by simp
    then have c: "c \<noteq> CHR ''+''" "c \<noteq> CHR ''-''" using is_digit_not_special by auto
    have p: "parse_unsigned (c # cs) = Some (nat i)"
      using parse_unsigned_str_nat [of "nat i"] s by simp
    have "filter is_digit (str_nat (nat i)) = str_nat (nat i)"
      using str_nat_digits by (intro filter_digits) simp
    with len a s have l: "\<not> max_str_digits < length (filter is_digit (c # cs))" by simp
    have "str_int i = c # cs" using False s by (simp add: str_int_def)
    with c p l False show ?thesis
      unfolding py_int_def int_strip_str_int
      by (simp del: filter.simps)
  qed
qed

lemma length_str_nat_1: "length (str_nat n) = 1 \<Longrightarrow> n < 10"
  using str_nat_digits [of "n div 10"]
  by (subst (asm) str_nat.simps) (auto split: if_splits)

lemma digit_char_inj: "a < 10 \<Longrightarrow> digit_char a = CHR ''6'' \<Longrightarrow> a = 6"
  using digit_of_digit_char [of a] by (simp add: digit_of_def)

lemma digit_char_inj5: "a < 10 \<Longrightarrow> digit_char a = CHR ''5'' \<Longrightarrow> a = 5"
  using digit_of_digit_char [of a] by (simp add: digit_of_def)

lemma startswith_65: "startswith s ''65'' = (take 2 s = ''65'')"
  by (simp add: startswith_def numeral_2_eq_2)

lemma startswith_65_nat: "startswith (str_nat n) ''65'' \<Longrightarrow> 65 \<le> n"
proof (induction n rule: str_nat.induct)
  case (1 n)
  show ?case
  proof (cases "n < 10")
    case True
    with "1.prems" show ?thesis
      by (subst (asm) str_nat.simps) (simp add: startswith_65)
  next
    case False
    let ?m = "n div 10"
    from False "1.prems" have p: "take 2 (str_nat ?m @ [digit_char (n mod 10)]) = ''65''"
      by (subst (asm) str_nat.simps) (simp add: startswith_65)
    show ?thesis
    proof (cases "length (str_nat ?m) = 1")
      case True
      then have m: "?m < 10" by (rule length_str_nat_1)
      then have "str_nat ?m = [digit_char ?m]" by (subst str_nat.simps) simp
      with p have "digit_char ?m = CHR ''6''" "digit_char (n mod 10) = CHR ''5''" by auto
      then have "?m = 6" "n mod 10 = 5" using m digit_char_inj digit_char_inj5 by auto
      then show ?thesis by presburger
    next
      case False
      moreover have "length (str_nat ?m) \<noteq> 0" using str_nat_digits [of ?m] by simp
      ultimately have "length (str_nat ?m) \<ge> 2" by linarith
      with p have "take 2 (str_nat ?m) = ''65''" by simp
      then have "startswith (str_nat ?m) ''65''" by (simp add: startswith_65)
      with 1 \<open>\<not> n < 10\<close> have "65 \<le> ?m" by simp
      then show ?thesis by presburger
    qed
  qed
qed

lemma startswith_65_int: "startswith (str_int i) ''65'' \<Longrightarrow> 65 \<le> i"
proof (cases "i < 0")
  case True
  assume "startswith (str_int i) ''65''"
  with True show ?thesis by (simp add: str_int_def startswith_65)
next
  case False
  assume "startswith (str_int i) ''65''"
  with False have "65 \<le> nat i" using startswith_65_nat by (simp add: str_int_def)
  then show ?thesis by simp
qed

section \<open>Age bucketing\<close>

lemma map_of_Some_key: "map_of al k = Some v \<Longrightarrow> k \<in> fst ` set al"
  by (metis domI dom_map_of_conv_image_fst)

lemma dict_incr_keys: "dict_incr dist k = Inr dist' \<Longrightarrow> map fst dist' = map fst dist"
  unfolding dict_incr_def
  by (auto split: option.splits simp: update_keys dest: map_of_Some_key)

lemma dict_incr_total: "k \<in> set (map fst dist) \<Longrightarrow> \<exists>dist'. dict_incr dist k = Inr dist'"
  unfolding dict_incr_def
  by (cases "map_of dist k") (auto simp: map_of_eq_None_iff)

subsection \<open>Trimming\<close>

text \<open>\<^verbatim>\<open>strip\<close> cuts the string to the part between its first and its last character that
  is not white space: what it removes is white space, and what it leaves neither starts
  nor ends with white space. Padding an age with white space does not change its bucket.\<close>

lemma py_strip_ends:
  "py_strip s = [] \<or> (\<not> is_space (hd (py_strip s)) \<and> \<not> is_space (last (py_strip s)))"
proof (cases "py_strip s = []")
  case True
  then show ?thesis by simp
next
  case False
  let ?t = "dropWhile is_space s"
  let ?u = "dropWhile is_space (rev ?t)"
  have u: "?u \<noteq> []" using False by (simp add: py_strip_def)
  have t: "?t \<noteq> []"
  proof
    assume e: "?t = []"
    have "?u = []" unfolding e by simp
    with u show False by simp
  qed
  have "rev ?t = takeWhile is_space (rev ?t) @ ?u" by simp
  then have "?t = rev ?u @ rev (takeWhile is_space (rev ?t))"
    by (metis rev_append rev_rev_ident)
  then have "hd ?t = hd (rev ?u)" using u by (metis hd_append2 rev_is_Nil_conv)
  moreover have "\<not> is_space (hd ?t)" using t by (rule hd_dropWhile)
  moreover have "\<not> is_space (hd ?u)" using u by (rule hd_dropWhile)
  moreover have "last (rev ?u) = hd ?u" using u by (simp add: last_rev)
  ultimately show ?thesis by (simp add: py_strip_def)
qed

lemma py_strip_removes_spaces:
  "\<exists>a b. s = a @ py_strip s @ b \<and> list_all is_space a \<and> list_all is_space b"
proof -
  let ?t = "dropWhile is_space s"
  let ?u = "dropWhile is_space (rev ?t)"
  have "rev ?t = takeWhile is_space (rev ?t) @ ?u" by simp
  then have "?t = rev ?u @ rev (takeWhile is_space (rev ?t))"
    by (metis rev_append rev_rev_ident)
  moreover have "s = takeWhile is_space s @ ?t" by simp
  ultimately have "s = takeWhile is_space s @ py_strip s @ rev (takeWhile is_space (rev ?t))"
    by (simp add: py_strip_def)
  moreover have "list_all is_space (takeWhile is_space s)"
    by (auto simp: list_all_iff dest: set_takeWhileD)
  moreover have "list_all is_space (rev (takeWhile is_space (rev ?t)))"
    by (auto simp: list_all_iff dest: set_takeWhileD)
  ultimately show ?thesis by blast
qed

lemma py_strip_padding:
  assumes "list_all is_space a" "list_all is_space b"
  shows "py_strip (a @ s @ b) = py_strip s"
proof -
  have a: "dropWhile is_space (a @ s @ b) = dropWhile is_space (s @ b)"
    using assms(1) by (intro dropWhile_append2) (simp add: list_all_iff)
  have b: "dropWhile is_space (rev b @ xs) = dropWhile is_space xs" for xs
    using assms(2) by (intro dropWhile_append2) (simp add: list_all_iff)
  show ?thesis
  proof (cases "list_all is_space s")
    case True
    then have "dropWhile is_space (s @ b) = dropWhile is_space b"
      by (intro dropWhile_append2) (simp add: list_all_iff)
    moreover have "dropWhile is_space b = []" using assms(2) by (simp add: list_all_iff)
    ultimately have 1: "dropWhile is_space (s @ b) = []" by simp
    have 2: "dropWhile is_space s = []" using True by (simp add: list_all_iff)
    show ?thesis unfolding py_strip_def a 1 2 by simp
  next
    case False
    then obtain x where "x \<in> set s" "\<not> is_space x" by (auto simp: list_all_iff)
    then have "dropWhile is_space (s @ b) = dropWhile is_space s @ b"
      by (rule dropWhile_append1)
    then show ?thesis by (simp add: py_strip_def a b)
  qed
qed

lemma age_step_padding:
  assumes "list_all is_space a" "list_all is_space b"
  shows "age_step dist (detail(''age'' \<mapsto> PStr (a @ s @ b))) =
         age_step dist (detail(''age'' \<mapsto> PStr s))"
  by (simp add: age_step_def dict_get_def py_str_def py_strip_padding [OF assms])

subsection \<open>Integer ages\<close>

lemma startswith_self: "startswith s s"
  by (simp add: startswith_def)

lemma py_int_labels: "py_int ''18-29'' = None" "py_int ''30-49'' = None" "py_int ''50-64'' = None"
  by code_simp+

lemma str_int_not_label:
  assumes "\<bar>n\<bar> < 10 ^ max_str_digits"
  shows "str_int n \<noteq> ''18-29''" "str_int n \<noteq> ''30-49''" "str_int n \<noteq> ''50-64''"
  using py_int_str_int [OF assms] py_int_labels by auto

text \<open>An integer of at most 4300 digits lands in the bucket of its range, whatever its
  digits: \<^verbatim>\<open>int(str(n))\<close> is \<open>n\<close>, and \<^verbatim>\<open>str(n)\<close> starts with 65 only if \<open>n\<close> is at least 65.\<close>

lemma age_step_int:
  assumes age: "dict_get detail ''age'' = PInt n" and small: "\<bar>n\<bar> < 10 ^ max_str_digits"
  shows "age_step dist detail =
          (if 18 \<le> n \<and> n \<le> 29 then dict_incr dist ''18-29''
           else if 30 \<le> n \<and> n \<le> 49 then dict_incr dist ''30-49''
           else if 50 \<le> n \<and> n \<le> 64 then dict_incr dist ''50-64''
           else if 65 \<le> n then dict_incr dist ''65+''
           else Inr dist)"
proof (cases "startswith (str_int n) ''65''")
  case True
  then have "65 \<le> n" by (rule startswith_65_int)
  with True show ?thesis
    by (simp add: age_step_def age py_str_small [OF small] py_strip_str_int
        str_int_not_label [OF small])
next
  case False
  then have "str_int n \<noteq> ''65''" using startswith_self [of "''65''"] by auto
  with False show ?thesis
    by (simp add: age_step_def age py_str_small [OF small] py_strip_str_int
        str_int_not_label [OF small] py_int_str_int [OF small])
qed


text \<open>For any other age the step returns, with the same four keys.\<close>

lemma age_step_returns:
  assumes keys: "map fst dist = [''18-29'', ''30-49'', ''50-64'', ''65+'']"
    and small: "\<And>n. dict_get detail ''age'' = PInt n \<Longrightarrow> \<bar>n\<bar> < 10 ^ max_str_digits"
  shows "\<exists>dist'. age_step dist detail = Inr dist' \<and> map fst dist' = map fst dist"
proof -
  have "age_step dist detail = Inr dist \<or>
        (\<exists>b \<in> {''18-29'', ''30-49'', ''50-64'', ''65+''}. age_step dist detail = dict_incr dist b)"
  proof (cases "dict_get detail ''age''")
    case PNone
    then show ?thesis by (simp add: age_step_def)
  next
    case (PStr s)
    then show ?thesis
      by (auto simp: age_step_def py_str_def Let_def split: option.splits)
  next
    case (PInt n)
    from age_step_int [OF PInt small [OF PInt]] show ?thesis by auto
  qed
  then show ?thesis
  proof
    assume "age_step dist detail = Inr dist"
    then show ?thesis by simp
  next
    assume "\<exists>b \<in> {''18-29'', ''30-49'', ''50-64'', ''65+''}. age_step dist detail = dict_incr dist b"
    then obtain b where b: "b \<in> {''18-29'', ''30-49'', ''50-64'', ''65+''}"
      and s: "age_step dist detail = dict_incr dist b" by blast
    from b keys have "b \<in> set (map fst dist)" by auto
    from dict_incr_total [OF this] obtain dist' where d: "dict_incr dist b = Inr dist'" by blast
    with s dict_incr_keys [OF d] show ?thesis by simp
  qed
qed

subsection \<open>Examples\<close>

lemma age_example_label:
  "count_age_distribution (Some [[''age'' \<mapsto> PStr ''18-29'']]) = Inr [(''18-29'', 1), (''30-49'', 0), (''50-64'', 0), (''65+'', 0)]"
  by code_simp

lemma age_example_29:
  "count_age_distribution (Some [[''age'' \<mapsto> PInt 29]]) = Inr [(''18-29'', 1), (''30-49'', 0), (''50-64'', 0), (''65+'', 0)]"
  by code_simp

lemma age_example_30:
  "count_age_distribution (Some [[''age'' \<mapsto> PInt 30]]) = Inr [(''18-29'', 0), (''30-49'', 1), (''50-64'', 0), (''65+'', 0)]"
  by code_simp

lemma age_example_64:
  "count_age_distribution (Some [[''age'' \<mapsto> PInt 64]]) = Inr [(''18-29'', 0), (''30-49'', 0), (''50-64'', 1), (''65+'', 0)]"
  by code_simp

lemma age_example_65:
  "count_age_distribution (Some [[''age'' \<mapsto> PInt 65]]) = Inr [(''18-29'', 0), (''30-49'', 0), (''50-64'', 0), (''65+'', 1)]"
  by code_simp

lemma age_example_65_years:
  "count_age_distribution (Some [[''age'' \<mapsto> PStr ''65 years'']]) = Inr [(''18-29'', 0), (''30-49'', 0), (''50-64'', 0), (''65+'', 1)]"
  by code_simp

lemma age_example_17:
  "count_age_distribution (Some [[''age'' \<mapsto> PInt 17]]) = Inr [(''18-29'', 0), (''30-49'', 0), (''50-64'', 0), (''65+'', 0)]"
  by code_simp

lemma age_example_unknown:
  "count_age_distribution (Some [[''age'' \<mapsto> PStr ''unknown'']]) = Inr [(''18-29'', 0), (''30-49'', 0), (''50-64'', 0), (''65+'', 0)]"
  by code_simp

lemma age_example_None:
  "count_age_distribution (Some [[''age'' \<mapsto> PNone]]) = Inr [(''18-29'', 0), (''30-49'', 0), (''50-64'', 0), (''65+'', 0)]"
  by code_simp

text \<open>Ages with white space around them, and inside.\<close>

lemma age_example_padded_label:
  "count_age_distribution (Some [[''age'' \<mapsto> PStr '' 30-49  '']]) = Inr [(''18-29'', 0), (''30-49'', 1), (''50-64'', 0), (''65+'', 0)]"
  by code_simp

lemma age_example_padded_number:
  "count_age_distribution (Some [[''age'' \<mapsto> PStr [CHR 0x09, CHR ''2'', CHR ''9'', CHR 0x0A]]]) = Inr [(''18-29'', 1), (''30-49'', 0), (''50-64'', 0), (''65+'', 0)]"
  by code_simp

lemma age_example_no_break_space:
  "count_age_distribution (Some [[''age'' \<mapsto> PStr [CHR 0xA0, CHR ''2'', CHR ''5'', CHR 0x85]]]) = Inr [(''18-29'', 1), (''30-49'', 0), (''50-64'', 0), (''65+'', 0)]"
  by code_simp

lemma age_example_separator:
  "count_age_distribution (Some [[''age'' \<mapsto> PStr [CHR 0x1C, CHR ''2'', CHR ''5'']]]) = Inr [(''18-29'', 1), (''30-49'', 0), (''50-64'', 0), (''65+'', 0)]"
  by code_simp

lemma age_example_inner_space:
  "count_age_distribution (Some [[''age'' \<mapsto> PStr ''2 5'']]) = Inr [(''18-29'', 0), (''30-49'', 0), (''50-64'', 0), (''65+'', 0)]"
  by code_simp

lemma age_example_sign_and_underscore:
  "count_age_distribution (Some [[''age'' \<mapsto> PStr ''+5_1'']]) = Inr [(''18-29'', 0), (''30-49'', 0), (''50-64'', 1), (''65+'', 0)]"
  by code_simp

text \<open>A string of more than 4300 digits is not parsed: \<^verbatim>\<open>int\<close> raises \<^verbatim>\<open>ValueError\<close>, which
  line 135 catches.\<close>

lemma age_step_long_digits:
  assumes age: "dict_get detail ''age'' = PStr s" and digits: "list_all is_digit s"
    and long: "max_str_digits < length s" and no65: "\<not> startswith s ''65''"
  shows "age_step dist detail = Inr dist"
proof -
  from long obtain c cs where s: "s = c # cs" by (cases s) auto
  have ne: "s \<noteq> []" using s by simp
  have ends: "is_digit (hd s)" "is_digit (last s)"
    using digits ne by (auto simp: list_all_iff)
  have strip: "py_strip s = s"
    using ne ends is_digit_not_special by (intro py_strip_id) auto
  have int_strip: "rev (dropWhile is_int_space (rev (dropWhile is_int_space s))) = s"
    using ne ends is_digit_not_special by (intro strip_id) auto
  have c: "c \<noteq> CHR ''+''" "c \<noteq> CHR ''-''" using ends(1) s is_digit_not_special by auto
  have "filter is_digit s = s" using digits by (rule filter_digits)
  with long have "max_str_digits < length (filter is_digit s)" by simp
  then have none: "py_int s = None"
    unfolding py_int_def int_strip using c by (simp add: s del: filter.simps)
  have "length s \<noteq> 5" using long by (simp add: max_str_digits_def)
  then have labels: "s \<noteq> ''18-29''" "s \<noteq> ''30-49''" "s \<noteq> ''50-64''" by auto
  have "s \<noteq> ''65''" using no65 startswith_self [of "''65''"] by auto
  with labels no65 show ?thesis
    by (simp add: age_step_def age py_str_def strip none)
qed

lemma age_example_4301_digits:
  "age_step dist [''age'' \<mapsto> PStr (replicate 4301 (CHR ''7''))] = Inr dist"
proof (rule age_step_long_digits)
  show "dict_get [''age'' \<mapsto> PStr (replicate 4301 (CHR ''7''))] ''age'' =
      PStr (replicate 4301 (CHR ''7''))"
    by (simp add: dict_get_def)
  show "list_all is_digit (replicate 4301 (CHR ''7''))"
    by (simp add: list_all_iff is_digit_def digit_of_def)
  show "max_str_digits < length (replicate 4301 (CHR ''7''))"
    by (simp add: max_str_digits_def)
  have "take 2 (replicate 4301 (CHR ''7'')) = ''77''"
    by (simp add: take_replicate numeral_2_eq_2)
  then show "\<not> startswith (replicate 4301 (CHR ''7'')) ''65''"
    by (simp add: startswith_def numeral_2_eq_2)
qed

subsection \<open>An integer age of more than 4300 digits\<close>






section \<open>The handler's error paths\<close>

lemma str_nat_400: "str_nat 400 = ''400''"
  by code_simp

lemma str_nat_500: "str_nat 500 = ''500''"
  by code_simp

lemma exn_str_HTTPException_500:
  "exn_str (HTTPException 500 d) = ''500: '' @ d"
  by (simp add: exn_str_def str_nat_500)

text \<open>
  C1. An empty \<^verbatim>\<open>product_description\<close> makes the handler raise
  \<^verbatim>\<open>HTTPException(status_code=400)\<close> at line 36, inside the \<^verbatim>\<open>try\<close> whose
  \<^verbatim>\<open>except Exception\<close> (line 201) catches it and raises status 500 in its place. No
  collaborator is invoked, but the client sees a server error 500, not the client error 400.
\<close>

theorem empty_description_is_server_error:
  "analyze_product c rng [] =
     ([], Inl (HTTPException 500
        ''Internal server error: 400: Missing 'product_description' in request body''))"
  by (simp add: analyze_product_def analyze_product_body_def exn_str_def str_nat_400)

text \<open>
  C2. When the two generators succeed and one of the three isolated stages raises (the
  similarity lookup, the decision analysis, or step 5 with the classifier), the handler
  leaves with status 500, no response, and a detail that names the stage: the stage's own
  message, behind the prefix that the outer \<^verbatim>\<open>except\<close> adds. The three details differ
  whatever the causes' messages are, so the detail identifies the stage.
\<close>

theorem stage_failure_reported:
  assumes "product_description \<noteq> []"
    and "generate_relevant_personas c product_description = Inr personas"
    and "generate_product_personas c product_description = Inr ppd"
  shows
    "(find_top_personas c personas 10 = Inl e \<longrightarrow>
        analyze_product c rng product_description =
          ([GenerateRelevantPersonas, GenerateProductPersonas, FindTopPersonas],
           Inl (HTTPException 500
             (''Internal server error: 500: Error finding top personas: '' @ exn_str e))))
     \<and> (find_top_personas c personas 10 = Inr topk \<and>
        analyze_purchase_decisions c product_description
          (case ppd_age_ranges ppd of None \<Rightarrow> [] | Some v \<Rightarrow> v)
          (case ppd_gender ppd of None \<Rightarrow> PStr ''Both'' | Some v \<Rightarrow> v) = Inl e \<longrightarrow>
        analyze_product c rng product_description =
          ([GenerateRelevantPersonas, GenerateProductPersonas, FindTopPersonas,
            AnalyzePurchaseDecisions],
           Inl (HTTPException 500
             (''Internal server error: 500: Error analyzing purchase decisions: '' @ exn_str e))))
     \<and> (find_top_personas c personas 10 = Inr topk \<and>
        analyze_purchase_decisions c product_description
          (case ppd_age_ranges ppd of None \<Rightarrow> [] | Some v \<Rightarrow> v)
          (case ppd_gender ppd of None \<Rightarrow> PStr ''Both'' | Some v \<Rightarrow> v) = Inr ar \<and>
        classify_stage c ar (case ppd_personas ppd of None \<Rightarrow> [] | Some v \<Rightarrow> v) = (calls, Inl e) \<longrightarrow>
        analyze_product c rng product_description =
          ([GenerateRelevantPersonas, GenerateProductPersonas, FindTopPersonas,
            AnalyzePurchaseDecisions] @ calls,
           Inl (HTTPException 500
             (''Internal server error: 500: Error classifying yes personas: '' @ exn_str e))))
     \<and> (\<forall>m m'. ''Internal server error: 500: Error finding top personas: '' @ m \<noteq>
                ''Internal server error: 500: Error analyzing purchase decisions: '' @ m'
              \<and> ''Internal server error: 500: Error finding top personas: '' @ m \<noteq>
                ''Internal server error: 500: Error classifying yes personas: '' @ m'
              \<and> ''Internal server error: 500: Error analyzing purchase decisions: '' @ m \<noteq>
                ''Internal server error: 500: Error classifying yes personas: '' @ m')"
proof (intro conjI impI)
  assume "find_top_personas c personas 10 = Inl e"
  with assms show "analyze_product c rng product_description =
          ([GenerateRelevantPersonas, GenerateProductPersonas, FindTopPersonas],
           Inl (HTTPException 500
             (''Internal server error: 500: Error finding top personas: '' @ exn_str e)))"
    by (simp add: analyze_product_def analyze_product_body_def exn_str_HTTPException_500)
next
  assume "find_top_personas c personas 10 = Inr topk \<and>
        analyze_purchase_decisions c product_description
          (case ppd_age_ranges ppd of None \<Rightarrow> [] | Some v \<Rightarrow> v)
          (case ppd_gender ppd of None \<Rightarrow> PStr ''Both'' | Some v \<Rightarrow> v) = Inl e"
  with assms show "analyze_product c rng product_description =
          ([GenerateRelevantPersonas, GenerateProductPersonas, FindTopPersonas,
            AnalyzePurchaseDecisions],
           Inl (HTTPException 500
             (''Internal server error: 500: Error analyzing purchase decisions: '' @ exn_str e)))"
    by (simp add: analyze_product_def analyze_product_body_def exn_str_HTTPException_500)
next
  assume "find_top_personas c personas 10 = Inr topk \<and>
        analyze_purchase_decisions c product_description
          (case ppd_age_ranges ppd of None \<Rightarrow> [] | Some v \<Rightarrow> v)
          (case ppd_gender ppd of None \<Rightarrow> PStr ''Both'' | Some v \<Rightarrow> v) = Inr ar \<and>
        classify_stage c ar (case ppd_personas ppd of None \<Rightarrow> [] | Some v \<Rightarrow> v) = (calls, Inl e)"
  with assms show "analyze_product c rng product_description =
          ([GenerateRelevantPersonas, GenerateProductPersonas, FindTopPersonas,
            AnalyzePurchaseDecisions] @ calls,
           Inl (HTTPException 500
             (''Internal server error: 500: Error classifying yes personas: '' @ exn_str e)))"
    by (simp add: analyze_product_def analyze_product_body_def exn_str_HTTPException_500)
qed simp

section \<open>The scenario, stage by stage\<close>

lemma random_choice_member: "seq \<noteq> [] \<Longrightarrow> random_choice d seq \<in> set seq"
  by (simp add: random_choice_def)

lemma random_choice_pair: "random_choice d [a, b] = a \<or> random_choice d [a, b] = b"
  using random_choice_member [of "[a, b]" d] by auto

lemma random_choice_single: "random_choice d [a] = a"
  by (simp add: random_choice_def)

lemma scenario_would_buy: "count_would_buy_pie (Some scenario_details) = Inr [(''yes'', 3), (''no'', 1)]"
  by code_simp

lemma scenario_yes_pie: "count_yes_pie [PStr ''EcoConscious'', PStr ''Budget''] scenario_classified = [(PStr ''EcoConscious'', 2), (PStr ''Budget'', 1)]"
  by code_simp

lemma scenario_age: "count_age_distribution (Some scenario_details) = Inr [(''18-29'', 1), (''30-49'', 2), (''50-64'', 0), (''65+'', 1)]"
  by code_simp

lemma scenario_groups: "group_loop [] scenario_classified = [(PStr ''EcoConscious'', [PStr ''p1'', PStr ''p2'']), (PStr ''Budget'', [PStr ''p3''])]"
  by code_simp

lemma scenario_yes_personas: "yes_personas_of scenario_details = Inr (take 3 scenario_details)"
  by (simp add: scenario_details_def dict_index_def)

lemma find_p1: "find_detail scenario_details (PStr ''p1'') = Some (scenario_details ! 0)"
  by (simp add: find_detail_def scenario_details_def dict_get_def)
lemma find_p2: "find_detail scenario_details (PStr ''p2'') = Some (scenario_details ! 1)"
  by (simp add: find_detail_def scenario_details_def dict_get_def)
lemma find_p3: "find_detail scenario_details (PStr ''p3'') = Some (scenario_details ! 2)"
  by (simp add: find_detail_def scenario_details_def dict_get_def)

lemma scenario_selected:
  "\<exists>x s. (x = PStr ''p1'' \<and> s = PStr ''commutes by bike'' \<or> x = PStr ''p2'' \<and> s = PStr ''hikes every weekend'') \<and>
     x = random_choice (rng 0) [PStr ''p1'', PStr ''p2''] \<and>
     select_consumers rng scenario_classified (Some scenario_details) =
     [(PStr ''EcoConscious'', [''persona_id'' \<mapsto> x, ''persona_summary'' \<mapsto> s]),
      (PStr ''Budget'', [''persona_id'' \<mapsto> PStr ''p3'', ''persona_summary'' \<mapsto> PStr ''compares prices''])]"
proof -
  have ne: "scenario_classified \<noteq> []" by (simp add: scenario_classified_def)
  from random_choice_pair [of "rng 0" "PStr ''p1''" "PStr ''p2''"]
  show ?thesis
  proof
    assume a: "random_choice (rng 0) [PStr ''p1'', PStr ''p2''] = PStr ''p1''"
    show ?thesis
      by (simp add: select_consumers_def select_consumers_from_def ne scenario_groups a find_p1 find_p3 random_choice_single)
         (simp add: scenario_details_def dict_get_default_def)
  next
    assume a: "random_choice (rng 0) [PStr ''p1'', PStr ''p2''] = PStr ''p2''"
    show ?thesis
      by (simp add: select_consumers_def select_consumers_from_def ne scenario_groups a find_p2 find_p3 random_choice_single)
         (simp add: scenario_details_def dict_get_default_def)
  qed
qed


lemma scenario_classify_stage:
  "classify_stage scenario_collaborators (Some scenario_details) pp =
     ([ClassifyYesPersonas], Inr scenario_classified)"
  by (simp add: classify_stage_def scenario_yes_personas) (simp add: scenario_collaborators_def)

lemma scenario_insights:
  "insights_loop scenario_collaborators d []
     [(PStr ''EcoConscious'', [''persona_id'' \<mapsto> x, ''persona_summary'' \<mapsto> PStr (c # cs)]),
      (PStr ''Budget'', [''persona_id'' \<mapsto> y, ''persona_summary'' \<mapsto> PStr (c' # cs')])] =
   ([GeneratePersonaInsights, GeneratePersonaInsights],
    Inr [(PStr ''EcoConscious'', [''persona_id'' \<mapsto> x, ''insights'' \<mapsto> PStr ''insights'']),
         (PStr ''Budget'', [''persona_id'' \<mapsto> y, ''insights'' \<mapsto> PStr ''insights''])])"
  by (simp add: dict_get_default_def dict_get_def truthy_def scenario_collaborators_def)

lemma scenario_response:
  "\<exists>x. (x = PStr ''p1'' \<or> x = PStr ''p2'') \<and>
     x = random_choice (rng 0) [PStr ''p1'', PStr ''p2''] \<and>
     analyze_product scenario_collaborators rng ''eco-friendly water bottle'' =
       ([GenerateRelevantPersonas, GenerateProductPersonas, FindTopPersonas,
         AnalyzePurchaseDecisions, ClassifyYesPersonas, GeneratePersonaInsights,
         GeneratePersonaInsights],
        Inr \<lparr>resp_would_buy_pie = [(''yes'', 3), (''no'', 1)],
             resp_yes_pie = [(PStr ''EcoConscious'', 2), (PStr ''Budget'', 1)],
             resp_age_distribution = [(''18-29'', 1), (''30-49'', 2), (''50-64'', 0), (''65+'', 1)],
             resp_consumer_insights =
               [(PStr ''EcoConscious'', [''persona_id'' \<mapsto> x, ''insights'' \<mapsto> PStr ''insights'']),
                (PStr ''Budget'', [''persona_id'' \<mapsto> PStr ''p3'', ''insights'' \<mapsto> PStr ''insights''])],
             resp_target_age_ranges = [PStr ''18-29'', PStr ''30-49''],
             resp_target_gender = PStr ''Both''\<rparr>)"
proof -
  obtain x s where x: "x = PStr ''p1'' \<and> s = PStr ''commutes by bike'' \<or>
        x = PStr ''p2'' \<and> s = PStr ''hikes every weekend''"
    and r: "x = random_choice (rng 0) [PStr ''p1'', PStr ''p2'']"
    and sel: "select_consumers rng scenario_classified (Some scenario_details) =
     [(PStr ''EcoConscious'', [''persona_id'' \<mapsto> x, ''persona_summary'' \<mapsto> s]),
      (PStr ''Budget'', [''persona_id'' \<mapsto> PStr ''p3'', ''persona_summary'' \<mapsto> PStr ''compares prices''])]"
    using scenario_selected [of rng] by blast
  from x obtain c cs where s: "s = PStr (c # cs)" by auto
  have gen: "generate_relevant_personas scenario_collaborators ''eco-friendly water bottle'' = Inr [PStr ''seed persona'']"
    "generate_product_personas scenario_collaborators ''eco-friendly water bottle'' =
       Inr \<lparr>ppd_personas = Some [PStr ''EcoConscious'', PStr ''Budget''],
             ppd_age_ranges = Some [PStr ''18-29'', PStr ''30-49''],
             ppd_gender = Some (PStr ''Both'')\<rparr>"
    "find_top_personas scenario_collaborators [PStr ''seed persona''] 10 = Inr []"
    "analyze_purchase_decisions scenario_collaborators ''eco-friendly water bottle''
        [PStr ''18-29'', PStr ''30-49''] (PStr ''Both'') = Inr (Some scenario_details)"
    by (simp_all add: scenario_collaborators_def)
  have "analyze_product scenario_collaborators rng ''eco-friendly water bottle'' =
       ([GenerateRelevantPersonas, GenerateProductPersonas, FindTopPersonas,
         AnalyzePurchaseDecisions, ClassifyYesPersonas, GeneratePersonaInsights,
         GeneratePersonaInsights],
        Inr \<lparr>resp_would_buy_pie = [(''yes'', 3), (''no'', 1)],
             resp_yes_pie = [(PStr ''EcoConscious'', 2), (PStr ''Budget'', 1)],
             resp_age_distribution = [(''18-29'', 1), (''30-49'', 2), (''50-64'', 0), (''65+'', 1)],
             resp_consumer_insights =
               [(PStr ''EcoConscious'', [''persona_id'' \<mapsto> x, ''insights'' \<mapsto> PStr ''insights'']),
                (PStr ''Budget'', [''persona_id'' \<mapsto> PStr ''p3'', ''insights'' \<mapsto> PStr ''insights''])],
             resp_target_age_ranges = [PStr ''18-29'', PStr ''30-49''],
             resp_target_gender = PStr ''Both''\<rparr>)"
  proof -
    have ins: "insights_loop scenario_collaborators ''eco-friendly water bottle'' []
        (select_consumers rng scenario_classified (Some scenario_details)) =
      ([GeneratePersonaInsights, GeneratePersonaInsights],
        Inr [(PStr ''EcoConscious'', [''persona_id'' \<mapsto> x, ''insights'' \<mapsto> PStr ''insights'']),
         (PStr ''Budget'', [''persona_id'' \<mapsto> PStr ''p3'', ''insights'' \<mapsto> PStr ''insights''])])"
      unfolding sel s by (rule scenario_insights)
    show ?thesis
      by (simp add: analyze_product_def analyze_product_body_def gen scenario_classify_stage
          aggregate_and_enrich_def scenario_would_buy scenario_yes_pie scenario_age ins)
  qed
  with x r show ?thesis by blast
qed

theorem stage_failure_reported_witness:
  "analyze_product failing_find first_member ''eco-friendly water bottle'' =
     ([GenerateRelevantPersonas, GenerateProductPersonas, FindTopPersonas],
      Inl (HTTPException 500
        ''Internal server error: 500: Error finding top personas: index offline''))
   \<and> analyze_product failing_analysis first_member ''eco-friendly water bottle'' =
     ([GenerateRelevantPersonas, GenerateProductPersonas, FindTopPersonas,
       AnalyzePurchaseDecisions],
      Inl (HTTPException 500
        ''Internal server error: 500: Error analyzing purchase decisions: model timeout''))
   \<and> analyze_product failing_classifier first_member ''eco-friendly water bottle'' =
     ([GenerateRelevantPersonas, GenerateProductPersonas, FindTopPersonas,
       AnalyzePurchaseDecisions, ClassifyYesPersonas],
      Inl (HTTPException 500
        ''Internal server error: 500: Error classifying yes personas: bad JSON''))"
proof (intro conjI)
  let ?ppd = "\<lparr>ppd_personas = Some [PStr ''EcoConscious'', PStr ''Budget''],
             ppd_age_ranges = Some [PStr ''18-29'', PStr ''30-49''],
             ppd_gender = Some (PStr ''Both'')\<rparr>"
  show "analyze_product failing_find first_member ''eco-friendly water bottle'' =
     ([GenerateRelevantPersonas, GenerateProductPersonas, FindTopPersonas],
      Inl (HTTPException 500
        ''Internal server error: 500: Error finding top personas: index offline''))"
    using stage_failure_reported [of "''eco-friendly water bottle''" failing_find
        "[PStr ''seed persona'']" ?ppd "Exception ''index offline''" first_member]
    by (simp add: failing_find_def scenario_collaborators_def exn_str_def)
  show "analyze_product failing_analysis first_member ''eco-friendly water bottle'' =
     ([GenerateRelevantPersonas, GenerateProductPersonas, FindTopPersonas,
       AnalyzePurchaseDecisions],
      Inl (HTTPException 500
        ''Internal server error: 500: Error analyzing purchase decisions: model timeout''))"
    using stage_failure_reported [of "''eco-friendly water bottle''" failing_analysis
        "[PStr ''seed persona'']" ?ppd "Exception ''model timeout''" first_member "[]"]
    by (simp add: failing_analysis_def scenario_collaborators_def exn_str_def)
  have "classify_stage failing_classifier (Some scenario_details)
      [PStr ''EcoConscious'', PStr ''Budget''] = ([ClassifyYesPersonas], Inl (Exception ''bad JSON''))"
    by (simp add: classify_stage_def scenario_yes_personas)
       (simp add: failing_classifier_def)
  then show "analyze_product failing_classifier first_member ''eco-friendly water bottle'' =
     ([GenerateRelevantPersonas, GenerateProductPersonas, FindTopPersonas,
       AnalyzePurchaseDecisions, ClassifyYesPersonas],
      Inl (HTTPException 500
        ''Internal server error: 500: Error classifying yes personas: bad JSON''))"
    using stage_failure_reported [of "''eco-friendly water bottle''" failing_classifier
        "[PStr ''seed persona'']" ?ppd "Exception ''bad JSON''" first_member "[]"
        "Some scenario_details" "[ClassifyYesPersonas]"]
    by (simp add: failing_classifier_def scenario_collaborators_def exn_str_def)
qed

text \<open>
  C8. The end-to-end scenario, for every source of randomness: the seven collaborator
  calls are made, \<^verbatim>\<open>would_buy_pie\<close> is 3 yes and 1 no, \<^verbatim>\<open>yes_pie\<close> is EcoConscious 2 and
  Budget 1, \<^verbatim>\<open>consumer_insights\<close> has the two keys EcoConscious and Budget, each with a
  \<^verbatim>\<open>persona_id\<close> and \<^verbatim>\<open>insights\<close>, the representative of EcoConscious being the member the
  source picks. The age distribution counts all four records, the one that answered no
  (age 40) included: \<^verbatim>\<open>30-49\<close> is 2, not 1.
\<close>

theorem end_to_end_scenario:
  "\<exists>calls r.
     analyze_product scenario_collaborators rng ''eco-friendly water bottle'' = (calls, Inr r)
     \<and> calls =
         [GenerateRelevantPersonas, GenerateProductPersonas, FindTopPersonas,
          AnalyzePurchaseDecisions, ClassifyYesPersonas, GeneratePersonaInsights,
          GeneratePersonaInsights]
     \<and> resp_would_buy_pie r = [(''yes'', 3), (''no'', 1)]
     \<and> resp_yes_pie r = [(PStr ''EcoConscious'', 2), (PStr ''Budget'', 1)]
     \<and> resp_age_distribution r = [(''18-29'', 1), (''30-49'', 2), (''50-64'', 0), (''65+'', 1)]
     \<and> map fst (resp_consumer_insights r) = [PStr ''EcoConscious'', PStr ''Budget'']
     \<and> list_all (\<lambda>(archetype, entry). dom entry = {''persona_id'', ''insights''})
           (resp_consumer_insights r)
     \<and> map_of (resp_consumer_insights r) (PStr ''EcoConscious'') =
           Some [''persona_id'' \<mapsto> random_choice (rng 0) [PStr ''p1'', PStr ''p2''],
                 ''insights'' \<mapsto> PStr ''insights'']
     \<and> map_of (resp_consumer_insights r) (PStr ''Budget'') =
           Some [''persona_id'' \<mapsto> PStr ''p3'', ''insights'' \<mapsto> PStr ''insights'']
     \<and> resp_target_age_ranges r = [PStr ''18-29'', PStr ''30-49'']
     \<and> resp_target_gender r = PStr ''Both''"
proof -
  from scenario_response [of rng] obtain x where
    x: "x = random_choice (rng 0) [PStr ''p1'', PStr ''p2'']"
    and run: "analyze_product scenario_collaborators rng ''eco-friendly water bottle'' =
       ([GenerateRelevantPersonas, GenerateProductPersonas, FindTopPersonas,
         AnalyzePurchaseDecisions, ClassifyYesPersonas, GeneratePersonaInsights,
         GeneratePersonaInsights],
        Inr \<lparr>resp_would_buy_pie = [(''yes'', 3), (''no'', 1)],
             resp_yes_pie = [(PStr ''EcoConscious'', 2), (PStr ''Budget'', 1)],
             resp_age_distribution = [(''18-29'', 1), (''30-49'', 2), (''50-64'', 0), (''65+'', 1)],
             resp_consumer_insights =
               [(PStr ''EcoConscious'', [''persona_id'' \<mapsto> x, ''insights'' \<mapsto> PStr ''insights'']),
                (PStr ''Budget'', [''persona_id'' \<mapsto> PStr ''p3'', ''insights'' \<mapsto> PStr ''insights''])],
             resp_target_age_ranges = [PStr ''18-29'', PStr ''30-49''],
             resp_target_gender = PStr ''Both''\<rparr>)"
    by (elim exE conjE)
  have keys: "dom [''persona_id'' \<mapsto> x, ''insights'' \<mapsto> PStr ''insights''] =
      {''persona_id'', ''insights''}"
    "dom [''persona_id'' \<mapsto> PStr ''p3'', ''insights'' \<mapsto> PStr ''insights''] =
      {''persona_id'', ''insights''}"
    by auto
  show ?thesis
    unfolding run x [symmetric] using keys by simp
qed

theorem end_to_end_scenario_witness:
  "\<exists>calls r.
     analyze_product scenario_collaborators first_member ''eco-friendly water bottle'' =
       (calls, Inr r)
     \<and> resp_would_buy_pie r = [(''yes'', 3), (''no'', 1)]
     \<and> resp_yes_pie r = [(PStr ''EcoConscious'', 2), (PStr ''Budget'', 1)]
     \<and> resp_age_distribution r = [(''18-29'', 1), (''30-49'', 2), (''50-64'', 0), (''65+'', 1)]
     \<and> map fst (resp_consumer_insights r) = [PStr ''EcoConscious'', PStr ''Budget'']
     \<and> map_of (resp_consumer_insights r) (PStr ''EcoConscious'') =
           Some [''persona_id'' \<mapsto> PStr ''p1'', ''insights'' \<mapsto> PStr ''insights'']"
proof -
  have "random_choice (first_member 0) [PStr ''p1'', PStr ''p2''] = PStr ''p1''"
    by (simp add: random_choice_def first_member_def)
  with end_to_end_scenario [of first_member] show ?thesis by auto
qed

text \<open>C8, as the specification states it, fails: its scenario expects one record in
  \<^verbatim>\<open>30-49\<close>; the handler counts the two records of ages 34 and 40.\<close>

theorem scenario_age_distribution_counterexample:
  "map_sum id resp_age_distribution
     (snd (analyze_product scenario_collaborators first_member ''eco-friendly water bottle'')) \<noteq>
   Inr [(''18-29'', 1), (''30-49'', 1), (''50-64'', 0), (''65+'', 1)]"
  using scenario_response [of first_member] by auto

section \<open>A classifier that drifts from the declared archetypes\<close>

lemma drifted_yes_pie:
  "count_yes_pie [PStr ''EcoConscious'', PStr ''Budget''] drifted_classified =
     [(PStr ''EcoConscious'', 2), (PStr ''Budget'', 0)]"
  by code_simp

lemma drifted_groups:
  "group_loop [] drifted_classified =
     [(PStr ''EcoConscious'', [PStr ''p1'', PStr ''p2'']), (PStr ''Luxury'', [PStr ''p3''])]"
  by code_simp

lemma drifted_selected:
  "\<exists>x s. (x = PStr ''p1'' \<and> s = PStr ''commutes by bike'' \<or> x = PStr ''p2'' \<and> s = PStr ''hikes every weekend'') \<and>
     x = random_choice (rng 0) [PStr ''p1'', PStr ''p2''] \<and>
     select_consumers rng drifted_classified (Some scenario_details) =
     [(PStr ''EcoConscious'', [''persona_id'' \<mapsto> x, ''persona_summary'' \<mapsto> s]),
      (PStr ''Luxury'', [''persona_id'' \<mapsto> PStr ''p3'', ''persona_summary'' \<mapsto> PStr ''compares prices''])]"
proof -
  have ne: "drifted_classified \<noteq> []" by (simp add: drifted_classified_def)
  from random_choice_pair [of "rng 0" "PStr ''p1''" "PStr ''p2''"]
  show ?thesis
  proof
    assume a: "random_choice (rng 0) [PStr ''p1'', PStr ''p2''] = PStr ''p1''"
    show ?thesis
      by (simp add: select_consumers_def select_consumers_from_def ne drifted_groups a find_p1 find_p3 random_choice_single)
         (simp add: scenario_details_def dict_get_default_def)
  next
    assume a: "random_choice (rng 0) [PStr ''p1'', PStr ''p2''] = PStr ''p2''"
    show ?thesis
      by (simp add: select_consumers_def select_consumers_from_def ne drifted_groups a find_p2 find_p3 random_choice_single)
         (simp add: scenario_details_def dict_get_default_def)
  qed
qed

lemma drifted_collaborators_calls:
  "generate_relevant_personas drifted_collaborators = generate_relevant_personas scenario_collaborators"
  "generate_product_personas drifted_collaborators = generate_product_personas scenario_collaborators"
  "find_top_personas drifted_collaborators = find_top_personas scenario_collaborators"
  "analyze_purchase_decisions drifted_collaborators = analyze_purchase_decisions scenario_collaborators"
  "generate_persona_insights drifted_collaborators = generate_persona_insights scenario_collaborators"
  "classify_yes_personas drifted_collaborators = (\<lambda>yes_personas archetypes. Inr drifted_classified)"
  by (simp_all add: drifted_collaborators_def)

lemma drifted_insights:
  "insights_loop drifted_collaborators d []
     [(PStr ''EcoConscious'', [''persona_id'' \<mapsto> x, ''persona_summary'' \<mapsto> PStr (c # cs)]),
      (PStr ''Luxury'', [''persona_id'' \<mapsto> y, ''persona_summary'' \<mapsto> PStr (c' # cs')])] =
   ([GeneratePersonaInsights, GeneratePersonaInsights],
    Inr [(PStr ''EcoConscious'', [''persona_id'' \<mapsto> x, ''insights'' \<mapsto> PStr ''insights'']),
         (PStr ''Luxury'', [''persona_id'' \<mapsto> y, ''insights'' \<mapsto> PStr ''insights''])])"
  by (simp add: dict_get_default_def dict_get_def truthy_def Let_def
        drifted_collaborators_def scenario_collaborators_def)

lemma drifted_response:
  "\<exists>calls r. analyze_product drifted_collaborators rng ''eco-friendly water bottle'' = (calls, Inr r) \<and>
     map fst (resp_yes_pie r) = [PStr ''EcoConscious'', PStr ''Budget''] \<and>
     map fst (resp_consumer_insights r) = [PStr ''EcoConscious'', PStr ''Luxury'']"
proof -
  obtain x s where x: "x = PStr ''p1'' \<and> s = PStr ''commutes by bike'' \<or>
        x = PStr ''p2'' \<and> s = PStr ''hikes every weekend''"
    and sel: "select_consumers rng drifted_classified (Some scenario_details) =
     [(PStr ''EcoConscious'', [''persona_id'' \<mapsto> x, ''persona_summary'' \<mapsto> s]),
      (PStr ''Luxury'', [''persona_id'' \<mapsto> PStr ''p3'', ''persona_summary'' \<mapsto> PStr ''compares prices''])]"
    using drifted_selected [of rng] by blast
  from x obtain c cs where s: "s = PStr (c # cs)" by auto
  have gen: "generate_relevant_personas scenario_collaborators ''eco-friendly water bottle'' = Inr [PStr ''seed persona'']"
    "generate_product_personas scenario_collaborators ''eco-friendly water bottle'' =
       Inr \<lparr>ppd_personas = Some [PStr ''EcoConscious'', PStr ''Budget''],
             ppd_age_ranges = Some [PStr ''18-29'', PStr ''30-49''],
             ppd_gender = Some (PStr ''Both'')\<rparr>"
    "find_top_personas scenario_collaborators [PStr ''seed persona''] 10 = Inr []"
    "analyze_purchase_decisions scenario_collaborators ''eco-friendly water bottle''
        [PStr ''18-29'', PStr ''30-49''] (PStr ''Both'') = Inr (Some scenario_details)"
    by (simp_all add: scenario_collaborators_def)
  have cl: "classify_stage drifted_collaborators (Some scenario_details)
      [PStr ''EcoConscious'', PStr ''Budget''] = ([ClassifyYesPersonas], Inr drifted_classified)"
    by (simp add: classify_stage_def scenario_yes_personas drifted_collaborators_calls)
  have ins: "insights_loop drifted_collaborators ''eco-friendly water bottle'' []
        (select_consumers rng drifted_classified (Some scenario_details)) =
      ([GeneratePersonaInsights, GeneratePersonaInsights],
        Inr [(PStr ''EcoConscious'', [''persona_id'' \<mapsto> x, ''insights'' \<mapsto> PStr ''insights'']),
         (PStr ''Luxury'', [''persona_id'' \<mapsto> PStr ''p3'', ''insights'' \<mapsto> PStr ''insights''])])"
    unfolding sel s by (rule drifted_insights)
  show ?thesis
    by (simp add: analyze_product_def analyze_product_body_def drifted_collaborators_calls(1-5) gen cl
          aggregate_and_enrich_def scenario_would_buy drifted_yes_pie scenario_age ins)
qed

text \<open>
  C10. The sampling and insight stages never compare \<^verbatim>\<open>assigned_archetype\<close> with the
  declared archetype labels. In the scenario whose classifier answers \<^verbatim>\<open>Luxury\<close> for the
  yes-record p3 (which has a non-empty summary), the response's \<^verbatim>\<open>consumer_insights\<close>
  has the key \<^verbatim>\<open>Luxury\<close>, which is no key of \<^verbatim>\<open>yes_pie\<close>: the keys of the insights are
  not a subset of the declared labels.
\<close>

theorem insights_key_outside_archetypes:
  "\<exists>calls r. analyze_product drifted_collaborators rng ''eco-friendly water bottle'' = (calls, Inr r) \<and>
     PStr ''Luxury'' \<in> set (map fst (resp_consumer_insights r)) \<and>
     PStr ''Luxury'' \<notin> set (map fst (resp_yes_pie r)) \<and>
     \<not> set (map fst (resp_consumer_insights r)) \<subseteq> set (map fst (resp_yes_pie r))"
proof -
  from drifted_response [of rng] obtain calls r where
    r: "analyze_product drifted_collaborators rng ''eco-friendly water bottle'' = (calls, Inr r) \<and>
      map fst (resp_yes_pie r) = [PStr ''EcoConscious'', PStr ''Budget''] \<and>
      map fst (resp_consumer_insights r) = [PStr ''EcoConscious'', PStr ''Luxury'']"
    by (elim exE)
  then have "PStr ''Luxury'' \<in> set (map fst (resp_consumer_insights r))"
    and "PStr ''Luxury'' \<notin> set (map fst (resp_yes_pie r))"
    by simp_all
  with r show ?thesis by blast
qed

theorem insights_key_outside_archetypes_witness:
  "\<exists>calls r. analyze_product drifted_collaborators first_member ''eco-friendly water bottle'' =
       (calls, Inr r) \<and>
     PStr ''Luxury'' \<in> set (map fst (resp_consumer_insights r)) \<and>
     PStr ''Luxury'' \<notin> set (map fst (resp_yes_pie r))"
  using insights_key_outside_archetypes [of first_member] by blast

section \<open>The buy/no-buy tally\<close>

text \<open>The tally returns its two counters exactly when every decision is a string or
  missing; the counters are then the numbers of records whose decision is \<^verbatim>\<open>yes\<close> and
  \<^verbatim>\<open>no\<close> in lower case. A decision that is present and not a string makes it raise.\<close>

lemma lower_method_error:
  "normalized_decision detail = None \<Longrightarrow>
   \<exists>e. lower_method (dict_get_default detail ''decision'' (PStr [])) = Inl e"
  by (simp add: lower_method_def normalized_decision_def split: pyval.splits)

lemma would_buy_step_normalized:
  "normalized_decision detail = Some s \<Longrightarrow>
   would_buy_step [(''yes'', y), (''no'', n)] detail =
     Inr [(''yes'', if s = ''yes'' then y + 1 else y), (''no'', if s = ''no'' then n + 1 else n)]"
  by (auto simp: would_buy_step_def lower_method_def normalized_decision_def dict_incr_def
      split: pyval.splits)

lemma would_buy_step_error:
  "normalized_decision detail = None \<Longrightarrow> \<exists>e. would_buy_step counts detail = Inl e"
  using lower_method_error [of detail] by (auto simp: would_buy_step_def)

lemma would_buy_loop_counts:
  "list_all (\<lambda>d. normalized_decision d \<noteq> None) D \<Longrightarrow>
   would_buy_loop [(''yes'', y), (''no'', n)] D =
     Inr [(''yes'', y + length (filter (\<lambda>d. normalized_decision d = Some ''yes'') D)),
          (''no'', n + length (filter (\<lambda>d. normalized_decision d = Some ''no'') D))]"
proof (induction D arbitrary: y n)
  case Nil
  then show ?case by simp
next
  case (Cons d D)
  then obtain s where s: "normalized_decision d = Some s" by auto
  from Cons.prems have "list_all (\<lambda>d. normalized_decision d \<noteq> None) D" by simp
  note ih = Cons.IH [OF this]
  show ?case
    by (simp add: would_buy_step_normalized [OF s] ih s)
qed

lemma would_buy_loop_error:
  "\<not> list_all (\<lambda>d. normalized_decision d \<noteq> None) D \<Longrightarrow>
   \<exists>e. would_buy_loop [(''yes'', y), (''no'', n)] D = Inl e"
proof (induction D arbitrary: y n)
  case Nil
  then show ?case by simp
next
  case (Cons d D)
  show ?case
  proof (cases "normalized_decision d")
    case None
    from would_buy_step_error [OF None] obtain e where
      "would_buy_step [(''yes'', y), (''no'', n)] d = Inl e" by blast
    then show ?thesis by simp
  next
    case (Some s)
    with Cons.prems have "\<not> list_all (\<lambda>d. normalized_decision d \<noteq> None) D" by simp
    from Cons.IH [OF this] show ?thesis
      by (simp add: would_buy_step_normalized [OF Some])
  qed
qed

lemma count_would_buy_pie_counts:
  "list_all (\<lambda>d. normalized_decision d \<noteq> None) D \<Longrightarrow>
   count_would_buy_pie (Some D) =
     Inr [(''yes'', length (filter (\<lambda>d. normalized_decision d = Some ''yes'') D)),
          (''no'', length (filter (\<lambda>d. normalized_decision d = Some ''no'') D))]"
  by (simp add: count_would_buy_pie_def would_buy_pie_init_def would_buy_loop_counts)

lemma count_would_buy_pie_error:
  "\<not> list_all (\<lambda>d. normalized_decision d \<noteq> None) D \<Longrightarrow>
   \<exists>e. count_would_buy_pie (Some D) = Inl e"
  by (simp add: count_would_buy_pie_def would_buy_pie_init_def would_buy_loop_error)

text \<open>A record without the key \<^verbatim>\<open>"decision"\<close> does not reach the tally: the comprehension
  of line 74 reads \<^verbatim>\<open>p["decision"]\<close> and raises \<^verbatim>\<open>KeyError\<close>, which ends the request as a
  failure of step 5.\<close>

lemma missing_decision_stops_step_5:
  "\<exists>d \<in> set D. d ''decision'' = None \<Longrightarrow> yes_personas_of D = Inl (KeyError ''decision'')"
proof (induction D)
  case Nil
  then show ?case by simp
next
  case (Cons p D)
  show ?case
  proof (cases "p ''decision''")
    case None
    then show ?thesis by (simp add: dict_index_def)
  next
    case (Some v)
    with Cons.prems have "\<exists>d \<in> set D. d ''decision'' = None" by auto
    from Cons.IH [OF this] Some show ?thesis by (simp add: dict_index_def)
  qed
qed

lemma partly_null_tally:
  "count_would_buy_pie (Some partly_null_details) =
     Inl (AttributeError (CHR 0x27 # ''NoneType' object has no attribute 'lower'' @ [CHR 0x27]))"
  by (simp add: count_would_buy_pie_def would_buy_pie_init_def partly_null_details_def
      would_buy_step_def dict_get_default_def lower_method_def py_lower_def lower_char_def
      dict_incr_def)

text \<open>
  C3. The claim has, for every decision set, the two counters of \<^verbatim>\<open>would_buy_pie\<close>, with
  their sum at most the number of records. For the three records with the decisions
  \<^verbatim>\<open>"yes"\<close>, \<^verbatim>\<open>None\<close> and \<^verbatim>\<open>"no"\<close> the claim's counters are 1 and 1. The handler has no
  counters for them: the tally counts the first record and raises at the second, whose
  decision has no \<^verbatim>\<open>.lower()\<close> (line 85), and the request ends with status 500 and no
  \<^verbatim>\<open>would_buy_pie\<close>, for every source of randomness.
\<close>

theorem would_buy_pie_absent:
  "would_buy_loop would_buy_pie_init (take 1 partly_null_details) = Inr [(''yes'', 1), (''no'', 0)]
   \<and> would_buy_loop would_buy_pie_init (take 2 partly_null_details) =
     Inl (AttributeError (CHR 0x27 # ''NoneType' object has no attribute 'lower'' @ [CHR 0x27]))
   \<and> count_would_buy_pie (Some partly_null_details) =
     Inl (AttributeError (CHR 0x27 # ''NoneType' object has no attribute 'lower'' @ [CHR 0x27]))
   \<and> analyze_product partly_null_collaborators rng ''eco-friendly water bottle'' =
     ([GenerateRelevantPersonas, GenerateProductPersonas, FindTopPersonas,
       AnalyzePurchaseDecisions, ClassifyYesPersonas],
      Inl (HTTPException 500
        (''Internal server error: '' @
           CHR 0x27 # ''NoneType' object has no attribute 'lower'' @ [CHR 0x27])))"
proof (intro conjI)
  show "would_buy_loop would_buy_pie_init (take 1 partly_null_details) =
      Inr [(''yes'', 1), (''no'', 0)]"
    by (simp add: would_buy_pie_init_def partly_null_details_def
        would_buy_step_def dict_get_default_def lower_method_def py_lower_def lower_char_def
        dict_incr_def)
  show "would_buy_loop would_buy_pie_init (take 2 partly_null_details) =
     Inl (AttributeError (CHR 0x27 # ''NoneType' object has no attribute 'lower'' @ [CHR 0x27]))"
    by (simp add: would_buy_pie_init_def partly_null_details_def
        would_buy_step_def dict_get_default_def lower_method_def py_lower_def lower_char_def
        dict_incr_def)
  show "count_would_buy_pie (Some partly_null_details) =
     Inl (AttributeError (CHR 0x27 # ''NoneType' object has no attribute 'lower'' @ [CHR 0x27]))"
    by (rule partly_null_tally)
  have y: "yes_personas_of partly_null_details = Inr [partly_null_details ! 0]"
    by (simp add: partly_null_details_def dict_index_def)
  have cl: "classify_stage partly_null_collaborators (Some partly_null_details)
      [PStr ''EcoConscious'', PStr ''Budget''] =
      ([ClassifyYesPersonas],
       Inr [[''persona_id'' \<mapsto> PStr ''p1'', ''assigned_archetype'' \<mapsto> PStr ''EcoConscious'']])"
    by (simp add: classify_stage_def y)
       (simp add: partly_null_collaborators_def scenario_collaborators_def)
  have gen: "generate_relevant_personas partly_null_collaborators ''eco-friendly water bottle'' =
      Inr [PStr ''seed persona'']"
    "generate_product_personas partly_null_collaborators ''eco-friendly water bottle'' =
       Inr \<lparr>ppd_personas = Some [PStr ''EcoConscious'', PStr ''Budget''],
             ppd_age_ranges = Some [PStr ''18-29'', PStr ''30-49''],
             ppd_gender = Some (PStr ''Both'')\<rparr>"
    "find_top_personas partly_null_collaborators [PStr ''seed persona''] 10 = Inr []"
    "analyze_purchase_decisions partly_null_collaborators ''eco-friendly water bottle''
        [PStr ''18-29'', PStr ''30-49''] (PStr ''Both'') = Inr (Some partly_null_details)"
    by (simp_all add: partly_null_collaborators_def scenario_collaborators_def)
  show "analyze_product partly_null_collaborators rng ''eco-friendly water bottle'' =
     ([GenerateRelevantPersonas, GenerateProductPersonas, FindTopPersonas,
       AnalyzePurchaseDecisions, ClassifyYesPersonas],
      Inl (HTTPException 500
        (''Internal server error: '' @
           CHR 0x27 # ''NoneType' object has no attribute 'lower'' @ [CHR 0x27])))"
    by (simp add: analyze_product_def analyze_product_body_def gen cl aggregate_and_enrich_def
        partly_null_tally exn_str_def)
qed

lemma null_decision_tally:
  "count_would_buy_pie (Some null_decision_details) =
     Inl (AttributeError (CHR 0x27 # ''NoneType' object has no attribute 'lower'' @ [CHR 0x27]))"
  by (simp add: count_would_buy_pie_def would_buy_pie_init_def null_decision_details_def
      would_buy_step_def dict_get_default_def lower_method_def py_lower_def lower_char_def
      dict_incr_def)

text \<open>
  C6. The claim has the tally raise no error for a malformed decision. Line 85 reads the
  decision with the default \<^verbatim>\<open>""\<close>, so that \<^verbatim>\<open>.lower()\<close> has a string when the key is
  missing; but a record whose decision is present and \<^verbatim>\<open>None\<close> (a JSON \<^verbatim>\<open>null\<close>) passes
  the comparison of line 74 and makes \<^verbatim>\<open>.lower()\<close> raise \<^verbatim>\<open>AttributeError\<close> at line 85,
  where the age path next to it guards against \<^verbatim>\<open>None\<close> (line 116). The request ends with
  status 500.
\<close>

theorem null_decision_raises:
  "count_would_buy_pie (Some [[''decision'' \<mapsto> PNone]]) =
     Inl (AttributeError (CHR 0x27 # ''NoneType' object has no attribute 'lower'' @ [CHR 0x27]))
   \<and> analyze_product null_decision_collaborators first_member ''eco-friendly water bottle'' =
     ([GenerateRelevantPersonas, GenerateProductPersonas, FindTopPersonas,
       AnalyzePurchaseDecisions, ClassifyYesPersonas],
      Inl (HTTPException 500
        (''Internal server error: '' @
           CHR 0x27 # ''NoneType' object has no attribute 'lower'' @ [CHR 0x27])))"
proof
  show "count_would_buy_pie (Some [[''decision'' \<mapsto> PNone]]) =
     Inl (AttributeError (CHR 0x27 # ''NoneType' object has no attribute 'lower'' @ [CHR 0x27]))"
    by (simp add: count_would_buy_pie_def would_buy_step_def dict_get_default_def lower_method_def)
  have y: "yes_personas_of null_decision_details = Inr [null_decision_details ! 0]"
    by (simp add: null_decision_details_def dict_index_def)
  have cl: "classify_stage null_decision_collaborators (Some null_decision_details)
      [PStr ''EcoConscious'', PStr ''Budget''] = ([ClassifyYesPersonas], Inr scenario_classified)"
    by (simp add: classify_stage_def y)
       (simp add: null_decision_collaborators_def scenario_collaborators_def)
  have gen: "generate_relevant_personas null_decision_collaborators ''eco-friendly water bottle'' =
      Inr [PStr ''seed persona'']"
    "generate_product_personas null_decision_collaborators ''eco-friendly water bottle'' =
       Inr \<lparr>ppd_personas = Some [PStr ''EcoConscious'', PStr ''Budget''],
             ppd_age_ranges = Some [PStr ''18-29'', PStr ''30-49''],
             ppd_gender = Some (PStr ''Both'')\<rparr>"
    "find_top_personas null_decision_collaborators [PStr ''seed persona''] 10 = Inr []"
    "analyze_purchase_decisions null_decision_collaborators ''eco-friendly water bottle''
        [PStr ''18-29'', PStr ''30-49''] (PStr ''Both'') = Inr (Some null_decision_details)"
    by (simp_all add: null_decision_collaborators_def scenario_collaborators_def)
  show "analyze_product null_decision_collaborators first_member ''eco-friendly water bottle'' =
     ([GenerateRelevantPersonas, GenerateProductPersonas, FindTopPersonas,
       AnalyzePurchaseDecisions, ClassifyYesPersonas],
      Inl (HTTPException 500
        (''Internal server error: '' @
           CHR 0x27 # ''NoneType' object has no attribute 'lower'' @ [CHR 0x27])))"
    by (simp add: analyze_product_def analyze_product_body_def gen cl aggregate_and_enrich_def
        null_decision_tally exn_str_def)
qed

section \<open>The archetype tally\<close>

lemma yes_pie_init_loop_keys:
  "set (map fst (yes_pie_init_loop counts pp)) = set (map fst counts) \<union> set pp"
  by (induction pp arbitrary: counts) (auto simp: dom_update)

lemma yes_pie_init_loop_distinct:
  "distinct (map fst counts) \<Longrightarrow> distinct (map fst (yes_pie_init_loop counts pp))"
  by (induction pp arbitrary: counts) (auto simp: distinct_update)

lemma yes_pie_init_loop_zero:
  "list_all (\<lambda>(a, v). v = 0) counts \<Longrightarrow> list_all (\<lambda>(a, v). v = 0) (yes_pie_init_loop counts pp)"
proof (induction pp arbitrary: counts)
  case Nil
  then show ?case by simp
next
  case (Cons p pp)
  have "list_all (\<lambda>(a, v). v = 0) (AList.update p 0 counts)"
    using Cons.prems by (induction counts) auto
  from Cons.IH [OF this] show ?case by simp
qed

lemma yes_pie_step_keys: "map fst (yes_pie_step counts c) = map fst counts"
proof (cases "map_of counts (dict_get_default c ''assigned_archetype'' (PStr []))")
  case None
  then show ?thesis by (simp add: yes_pie_step_def)
next
  case (Some v)
  then show ?thesis
    using map_of_Some_key [OF Some] by (simp add: yes_pie_step_def update_keys)
qed

lemma yes_pie_loop_keys: "map fst (yes_pie_loop counts cs) = map fst counts"
  by (induction cs arbitrary: counts) (auto simp: yes_pie_step_keys)

lemma yes_pie_step_map_of:
  "map_of (yes_pie_step counts c) a =
     map_option (\<lambda>v. if dict_get_default c ''assigned_archetype'' (PStr []) = a then v + 1 else v)
       (map_of counts a)"
  by (cases "map_of counts a")
     (auto simp: yes_pie_step_def Let_def update_conv' split: option.splits)

lemma yes_pie_loop_map_of:
  "map_of (yes_pie_loop counts cs) a =
     map_option (\<lambda>v. v + length (filter (\<lambda>c. dict_get_default c ''assigned_archetype'' (PStr []) = a) cs))
       (map_of counts a)"
proof (induction cs arbitrary: counts)
  case Nil
  then show ?case by (simp add: option.map_ident)
next
  case (Cons c cs)
  show ?case
    by (simp add: Cons.IH yes_pie_step_map_of option.map_comp comp_def)
qed

lemma yes_pie_step_unknown:
  "dict_get_default c ''assigned_archetype'' (PStr []) \<notin> set (map fst counts) \<Longrightarrow>
   yes_pie_step counts c = counts"
  by (simp add: yes_pie_step_def map_of_eq_None_iff [THEN iffD2])

lemma yes_pie_loop_unknown:
  "dict_get_default c ''assigned_archetype'' (PStr []) \<notin> set (map fst counts) \<Longrightarrow>
   yes_pie_loop counts (cs1 @ c # cs2) = yes_pie_loop counts (cs1 @ cs2)"
proof (induction cs1 arbitrary: counts)
  case Nil
  then show ?case by (simp add: yes_pie_step_unknown)
next
  case (Cons x cs1)
  have "dict_get_default c ''assigned_archetype'' (PStr []) \<notin> set (map fst (yes_pie_step counts x))"
    using Cons.prems by (simp add: yes_pie_step_keys)
  from Cons.IH [OF this] show ?case by simp
qed

lemma count_yes_pie_alt:
  "count_yes_pie pp cs = yes_pie_loop (yes_pie_init_loop [] pp) cs"
  by (cases pp; cases cs) (simp_all add: count_yes_pie_def)

lemma count_yes_pie_keys: "set (map fst (count_yes_pie pp cs)) = set pp"
  by (simp only: count_yes_pie_alt yes_pie_loop_keys yes_pie_init_loop_keys) simp

lemma map_of_zero: "list_all (\<lambda>(a, v). v = (0::nat)) al \<Longrightarrow> a \<in> set (map fst al) \<Longrightarrow> map_of al a = Some 0"
  by (induction al) auto

lemma count_yes_pie_value:
  assumes "a \<in> set pp"
  shows "map_of (count_yes_pie pp cs) a =
     Some (length (filter (\<lambda>c. dict_get_default c ''assigned_archetype'' (PStr []) = a) cs))"
proof -
  have "list_all (\<lambda>(a, v). v = 0) (yes_pie_init_loop [] pp)"
    by (rule yes_pie_init_loop_zero) simp
  moreover have "a \<in> set (map fst (yes_pie_init_loop [] pp))"
    using assms by (simp only: yes_pie_init_loop_keys) simp
  ultimately have "map_of (yes_pie_init_loop [] pp) a = Some 0" by (rule map_of_zero)
  then show ?thesis by (simp add: count_yes_pie_alt yes_pie_loop_map_of)
qed

lemma count_yes_pie_unknown:
  assumes "dict_get_default c ''assigned_archetype'' (PStr []) \<notin> set pp"
  shows "count_yes_pie pp (cs1 @ c # cs2) = count_yes_pie pp (cs1 @ cs2)"
proof -
  have "dict_get_default c ''assigned_archetype'' (PStr []) \<notin> set (map fst (yes_pie_init_loop [] pp))"
    using assms by (simp only: yes_pie_init_loop_keys) simp
  then show ?thesis by (simp add: count_yes_pie_alt yes_pie_loop_unknown)
qed

text \<open>
  C4. The keys of \<^verbatim>\<open>yes_pie\<close> are exactly the archetype labels of the product-persona
  generator, each once, whatever the classifications are; without classifications every
  counter is 0; a label's counter is the number of classifications assigned to it; and a
  classification whose archetype is none of the labels changes no counter.
\<close>

theorem yes_pie_keys_are_the_archetypes:
  "set (map fst (count_yes_pie pp cs)) = set pp
   \<and> distinct (map fst (count_yes_pie pp cs))
   \<and> map fst (count_yes_pie pp cs) = map fst (count_yes_pie pp [])
   \<and> list_all (\<lambda>(a, v). v = 0) (count_yes_pie pp [])
   \<and> (a \<in> set pp \<longrightarrow>
        map_of (count_yes_pie pp cs) a =
          Some (length (filter (\<lambda>c. dict_get_default c ''assigned_archetype'' (PStr []) = a) cs)))
   \<and> (dict_get_default c ''assigned_archetype'' (PStr []) \<notin> set pp \<longrightarrow>
        count_yes_pie pp (cs1 @ c # cs2) = count_yes_pie pp (cs1 @ cs2))"
proof (intro conjI impI)
  show "set (map fst (count_yes_pie pp cs)) = set pp" by (rule count_yes_pie_keys)
  show "distinct (map fst (count_yes_pie pp cs))"
    by (simp only: count_yes_pie_alt yes_pie_loop_keys) (simp add: yes_pie_init_loop_distinct)
  show "map fst (count_yes_pie pp cs) = map fst (count_yes_pie pp [])"
    by (simp only: count_yes_pie_alt yes_pie_loop_keys)
  show "list_all (\<lambda>(a, v). v = 0) (count_yes_pie pp [])"
    by (simp add: count_yes_pie_alt yes_pie_init_loop_zero)
qed (simp_all add: count_yes_pie_value count_yes_pie_unknown)

theorem yes_pie_keys_are_the_archetypes_witness:
  "map_of (count_yes_pie [PStr ''EcoConscious'', PStr ''Budget''] drifted_classified)
     (PStr ''EcoConscious'') = Some 2
   \<and> count_yes_pie [PStr ''EcoConscious'', PStr ''Budget''] drifted_classified =
     count_yes_pie [PStr ''EcoConscious'', PStr ''Budget''] (take 2 drifted_classified)"
proof -
  let ?pp = "[PStr ''EcoConscious'', PStr ''Budget'']"
  let ?c = "[''persona_id'' \<mapsto> PStr ''p3'', ''assigned_archetype'' \<mapsto> PStr ''Luxury'']"
  let ?cs1 = "take 2 drifted_classified"
  have parts: "drifted_classified = ?cs1 @ ?c # []"
    by (simp add: drifted_classified_def)
  have h1: "PStr ''EcoConscious'' \<in> set ?pp" by simp
  have h2: "dict_get_default ?c ''assigned_archetype'' (PStr []) \<notin> set ?pp"
    by (simp add: dict_get_default_def)
  note inst = yes_pie_keys_are_the_archetypes
    [where pp = ?pp and cs = drifted_classified and a = "PStr ''EcoConscious''" and c = ?c
       and ?cs1.0 = ?cs1 and ?cs2.0 = "[]"]
  from inst h1 have "map_of (count_yes_pie ?pp drifted_classified) (PStr ''EcoConscious'') =
      Some (length (filter (\<lambda>c. dict_get_default c ''assigned_archetype'' (PStr []) =
        PStr ''EcoConscious'') drifted_classified))"
    by blast
  moreover have "length (filter (\<lambda>c. dict_get_default c ''assigned_archetype'' (PStr []) =
        PStr ''EcoConscious'') drifted_classified) = 2"
    by (simp add: drifted_classified_def dict_get_default_def)
  moreover from inst h2 have "count_yes_pie ?pp (?cs1 @ ?c # []) = count_yes_pie ?pp (?cs1 @ [])"
    by blast
  then have "count_yes_pie ?pp drifted_classified = count_yes_pie ?pp ?cs1"
    using parts by simp
  ultimately show ?thesis by simp
qed

section \<open>Representative sampling\<close>




























section \<open>Aggregation on the store\<close>

subsection \<open>Reading the store\<close>

lemma fetch_less: "fetch s r = Some ob \<Longrightarrow> r < length s"
  by (simp add: fetch_def split: if_splits)

lemma fetch_assign:
  "fetch (assign s c ob) r = (if r = c \<and> c < length s then Some ob else fetch s r)"
  by (simp add: fetch_def assign_def)

lemma fetch_extend:
  assumes "take (length s) s' = s" "fetch s r = Some ob"
  shows "fetch s' r = Some ob"
proof -
  from assms(2) have r: "r < length s" and ob: "s ! r = ob"
    by (auto simp: fetch_def split: if_splits)
  have "length (take (length s) s') = length s" using assms(1) by simp
  then have len: "length s \<le> length s'" by simp
  have "take (length s) s' ! r = s' ! r" using r by simp
  with assms(1) ob have "s' ! r = ob" by simp
  with r len show ?thesis by (simp add: fetch_def)
qed

lemma is_record_fetch: "is_record s r \<Longrightarrow> \<exists>d. fetch s r = Some (Record d)"
  by (auto simp: is_record_def split: option.splits obj.splits)

lemma is_record_extend:
  assumes "take (length s) s' = s" "is_record s r"
  shows "is_record s' r \<and> record_of s' r = record_of s r"
proof -
  from assms(2) obtain d where "fetch s r = Some (Record d)"
    by (auto simp: is_record_def split: option.splits obj.splits)
  with fetch_extend [OF assms(1) this] show ?thesis
    by (simp add: is_record_def record_of_def)
qed

lemma records_extend:
  assumes "take (length s) s' = s" "list_all (is_record s) rs"
  shows "list_all (is_record s') rs \<and> map (record_of s') rs = map (record_of s) rs"
  using assms(2) is_record_extend [OF assms(1)] by (induction rs) auto

lemma details_in_extend:
  assumes "take (length s) s' = s" "details_in s r = Inr x"
  shows "details_in s' r = Inr x"
proof -
  from assms(2) consider "fetch s r = Some (Results None)" "x = None"
    | l rs where "fetch s r = Some (Results (Some l))" "fetch s l = Some (Items rs)" "x = Some rs"
    by (auto simp: details_in_def split: option.splits obj.splits)
  then show ?thesis
  proof cases
    case 1
    with fetch_extend [OF assms(1) 1(1)] show ?thesis by (simp add: details_in_def)
  next
    case 2
    with fetch_extend [OF assms(1) 2(1)] fetch_extend [OF assms(1) 2(2)] show ?thesis
      by (simp add: details_in_def)
  qed
qed

lemma labels_in_extend:
  assumes "take (length s) s' = s" "labels_in s r = Inr x"
  shows "labels_in s' r = Inr x"
proof -
  from assms(2) have f: "fetch s r = Some (Labels x)"
    by (auto simp: labels_in_def split: option.splits obj.splits)
  from fetch_extend [OF assms(1) f] show ?thesis by (simp add: labels_in_def)
qed

lemma items_in_extend:
  assumes "take (length s) s' = s" "items_in s r = Inr x"
  shows "items_in s' r = Inr x"
proof -
  from assms(2) have f: "fetch s r = Some (Items x)"
    by (auto simp: items_in_def split: option.splits obj.splits)
  from fetch_extend [OF assms(1) f] show ?thesis by (simp add: items_in_def)
qed

lemma well_formed_extend:
  assumes ext: "take (length s) s' = s" and wf: "well_formed s ar pp cy"
  shows "well_formed s' ar pp cy \<and> decision_set s' ar = decision_set s ar
     \<and> declared_labels s' pp = declared_labels s pp
     \<and> classifications s' cy = classifications s cy"
proof -
  from wf obtain dopt ls cs where d: "details_in s ar = Inr dopt"
    and dr: "case dopt of None \<Rightarrow> True | Some rs \<Rightarrow> list_all (is_record s) rs"
    and l: "labels_in s pp = Inr ls"
    and c: "items_in s cy = Inr cs" and cr: "list_all (is_record s) cs"
    by (auto simp: well_formed_def split: sum.splits)
  note d' = details_in_extend [OF ext d] and l' = labels_in_extend [OF ext l]
    and c' = items_in_extend [OF ext c] and cr' = records_extend [OF ext cr]
  show ?thesis
  proof (cases dopt)
    case None
    with d d' l l' c c' cr' show ?thesis
      by (simp add: well_formed_def decision_set_def declared_labels_def classifications_def)
  next
    case (Some rs)
    with dr have "list_all (is_record s) rs" by simp
    from records_extend [OF ext this] Some d d' l l' c c' cr' show ?thesis
      by (simp add: well_formed_def decision_set_def declared_labels_def classifications_def)
  qed
qed

lemma records_after_assign:
  assumes c: "fetch s c = Some ob0" and kind: "\<And>d. ob0 \<noteq> Record d"
    and recs: "list_all (is_record s) rs"
  shows "list_all (is_record (assign s c ob)) rs
     \<and> map (record_of (assign s c ob)) rs = map (record_of s) rs"
proof -
  have "is_record (assign s c ob) r \<and> record_of (assign s c ob) r = record_of s r"
    if "is_record s r" for r
  proof -
    from that obtain d where d: "fetch s r = Some (Record d)"
      by (auto simp: is_record_def split: option.splits obj.splits)
    with c kind [of d] have "r \<noteq> c" by auto
    with d show ?thesis by (simp add: is_record_def record_of_def fetch_assign)
  qed
  with recs show ?thesis by (induction rs) auto
qed

subsection \<open>The loops write to their counters only\<close>

lemma would_buy_loop_store_frame:
  "length (fst (would_buy_loop_store s c rs)) = length s
   \<and> (n \<le> c \<longrightarrow> take n (fst (would_buy_loop_store s c rs)) = take n s)"
  by (induction rs arbitrary: s)
     (auto simp: assign_def split: option.splits obj.splits sum.splits)

lemma yes_pie_init_store_frame:
  "length (fst (yes_pie_init_store s c ls)) = length s
   \<and> (n \<le> c \<longrightarrow> take n (fst (yes_pie_init_store s c ls)) = take n s)"
  by (induction ls arbitrary: s)
     (auto simp: assign_def split: option.splits obj.splits sum.splits)

lemma yes_pie_loop_store_frame:
  "length (fst (yes_pie_loop_store s c rs)) = length s
   \<and> (n \<le> c \<longrightarrow> take n (fst (yes_pie_loop_store s c rs)) = take n s)"
  by (induction rs arbitrary: s)
     (auto simp: assign_def split: option.splits obj.splits sum.splits)

lemma age_loop_store_frame:
  "length (fst (age_loop_store s c rs)) = length s
   \<and> (n \<le> c \<longrightarrow> take n (fst (age_loop_store s c rs)) = take n s)"
  by (induction rs arbitrary: s)
     (auto simp: assign_def split: option.splits obj.splits sum.splits)

subsection \<open>The loops compute the counters of the sections above\<close>

lemma assign_same: "fetch s c = Some ob \<Longrightarrow> assign s c ob = s"
  by (auto simp: fetch_def assign_def split: if_splits)

lemma assign_twice: "assign (assign s c ob) c ob' = assign s c ob'"
  by (simp add: assign_def)

lemma assign_last: "assign (s @ [ob]) (length s) ob' = s @ [ob']"
  by (simp add: assign_def)

lemma fetch_last: "fetch (s @ [ob]) (length s) = Some ob"
  by (simp add: fetch_def)

lemma would_buy_loop_store_run:
  assumes "fetch s c = Some (Counters c0)" "list_all (is_record s) rs"
  shows "case would_buy_loop c0 (map (record_of s) rs) of
           Inl e \<Rightarrow> snd (would_buy_loop_store s c rs) = Some e
         | Inr c' \<Rightarrow> would_buy_loop_store s c rs = (assign s c (Counters c'), None)"
  using assms
proof (induction rs arbitrary: s c0)
  case Nil
  then show ?case by (simp add: assign_same)
next
  case (Cons r rs)
  from Cons.prems have "is_record s r" and rest: "list_all (is_record s) rs" by simp_all
  then obtain d where d: "fetch s r = Some (Record d)" using is_record_fetch by blast
  have rd: "record_of s r = d" using d by (simp add: record_of_def)
  show ?case
  proof (cases "would_buy_step c0 d")
    case (Inl e)
    then show ?thesis using d Cons.prems(1) by (simp add: rd)
  next
    case (Inr c1)
    let ?s1 = "assign s c (Counters c1)"
    have c1: "fetch ?s1 c = Some (Counters c1)"
      using fetch_less [OF Cons.prems(1)] by (simp add: fetch_assign)
    have "list_all (is_record ?s1) rs \<and> map (record_of ?s1) rs = map (record_of s) rs"
      by (rule records_after_assign [OF Cons.prems(1) _ rest]) simp
    then have r1: "list_all (is_record ?s1) rs"
      and m1: "map (record_of ?s1) rs = map (record_of s) rs" by auto
    from Cons.IH [OF c1 r1]
    have "case would_buy_loop c1 (map (record_of s) rs) of
           Inl e \<Rightarrow> snd (would_buy_loop_store ?s1 c rs) = Some e
         | Inr c' \<Rightarrow> would_buy_loop_store ?s1 c rs = (assign s c (Counters c'), None)"
      by (simp add: m1 assign_twice split: sum.splits)
    then show ?thesis using d Cons.prems(1) Inr by (simp add: rd split: sum.splits)
  qed
qed

lemma age_loop_store_run:
  assumes "fetch s c = Some (Counters c0)" "list_all (is_record s) rs"
  shows "case age_loop c0 (map (record_of s) rs) of
           Inl e \<Rightarrow> snd (age_loop_store s c rs) = Some e
         | Inr c' \<Rightarrow> age_loop_store s c rs = (assign s c (Counters c'), None)"
  using assms
proof (induction rs arbitrary: s c0)
  case Nil
  then show ?case by (simp add: assign_same)
next
  case (Cons r rs)
  from Cons.prems have "is_record s r" and rest: "list_all (is_record s) rs" by simp_all
  then obtain d where d: "fetch s r = Some (Record d)" using is_record_fetch by blast
  have rd: "record_of s r = d" using d by (simp add: record_of_def)
  show ?case
  proof (cases "age_step c0 d")
    case (Inl e)
    then show ?thesis using d Cons.prems(1) by (simp add: rd)
  next
    case (Inr c1)
    let ?s1 = "assign s c (Counters c1)"
    have c1: "fetch ?s1 c = Some (Counters c1)"
      using fetch_less [OF Cons.prems(1)] by (simp add: fetch_assign)
    have "list_all (is_record ?s1) rs \<and> map (record_of ?s1) rs = map (record_of s) rs"
      by (rule records_after_assign [OF Cons.prems(1) _ rest]) simp
    then have r1: "list_all (is_record ?s1) rs"
      and m1: "map (record_of ?s1) rs = map (record_of s) rs" by auto
    from Cons.IH [OF c1 r1]
    have "case age_loop c1 (map (record_of s) rs) of
           Inl e \<Rightarrow> snd (age_loop_store ?s1 c rs) = Some e
         | Inr c' \<Rightarrow> age_loop_store ?s1 c rs = (assign s c (Counters c'), None)"
      by (simp add: m1 assign_twice split: sum.splits)
    then show ?thesis using d Cons.prems(1) Inr by (simp add: rd split: sum.splits)
  qed
qed

lemma yes_pie_init_store_run:
  assumes "fetch s c = Some (LabelCounters c0)"
  shows "yes_pie_init_store s c ls = (assign s c (LabelCounters (yes_pie_init_loop c0 ls)), None)"
  using assms
proof (induction ls arbitrary: s c0)
  case Nil
  then show ?case by (simp add: assign_same)
next
  case (Cons l ls)
  let ?s1 = "assign s c (LabelCounters (AList.update l 0 c0))"
  have "fetch ?s1 c = Some (LabelCounters (AList.update l 0 c0))"
    using fetch_less [OF Cons.prems] by (simp add: fetch_assign)
  from Cons.IH [OF this] Cons.prems show ?case by (simp add: assign_twice)
qed

lemma yes_pie_loop_store_run:
  assumes "fetch s c = Some (LabelCounters c0)" "list_all (is_record s) rs"
  shows "yes_pie_loop_store s c rs =
     (assign s c (LabelCounters (yes_pie_loop c0 (map (record_of s) rs))), None)"
  using assms
proof (induction rs arbitrary: s c0)
  case Nil
  then show ?case by (simp add: assign_same)
next
  case (Cons r rs)
  from Cons.prems have "is_record s r" and rest: "list_all (is_record s) rs" by simp_all
  then obtain d where d: "fetch s r = Some (Record d)" using is_record_fetch by blast
  have rd: "record_of s r = d" using d by (simp add: record_of_def)
  let ?s1 = "assign s c (LabelCounters (yes_pie_step c0 d))"
  have c1: "fetch ?s1 c = Some (LabelCounters (yes_pie_step c0 d))"
    using fetch_less [OF Cons.prems(1)] by (simp add: fetch_assign)
  have "list_all (is_record ?s1) rs \<and> map (record_of ?s1) rs = map (record_of s) rs"
    by (rule records_after_assign [OF Cons.prems(1) _ rest]) simp
  then have r1: "list_all (is_record ?s1) rs"
    and m1: "map (record_of ?s1) rs = map (record_of s) rs" by auto
  from Cons.IH [OF c1 r1] d Cons.prems(1) show ?case by (simp add: m1 assign_twice rd)
qed

subsection \<open>The three stages\<close>

lemma would_buy_pie_stage_frame:
  "take (length s) (fst (would_buy_pie_stage s ar)) = s"
proof -
  have "take (length s) (fst (would_buy_loop_store (s @ [ob]) (length s) rs)) = s" for ob rs
    using would_buy_loop_store_frame [of "s @ [ob]" "length s" rs "length s"] by simp
  then show ?thesis
    by (auto simp: would_buy_pie_stage_def allocate_def split: sum.splits option.splits prod.splits)
       (metis fst_conv)+
qed

lemma age_distribution_stage_frame:
  "take (length s) (fst (age_distribution_stage s ar)) = s"
proof -
  have "take (length s) (fst (age_loop_store (s @ [ob]) (length s) rs)) = s" for ob rs
    using age_loop_store_frame [of "s @ [ob]" "length s" rs "length s"] by simp
  then show ?thesis
    by (auto simp: age_distribution_stage_def allocate_def
        split: sum.splits option.splits prod.splits)
       (metis fst_conv)+
qed

lemma yes_pie_stage_frame:
  "take (length s) (fst (yes_pie_stage s pp cy)) = s"
proof -
  let ?s1 = "s @ [LabelCounters []]"
  have init: "take (length s) (fst (yes_pie_init_store ?s1 (length s) ls)) = s"
    and init_len: "length (fst (yes_pie_init_store ?s1 (length s) ls)) = Suc (length s)" for ls
    using yes_pie_init_store_frame [of ?s1 "length s" ls "length s"] by simp_all
  have loop: "take (length s) (fst (yes_pie_loop_store s2 (length s) rs)) = take (length s) s2"
    for s2 rs
    using yes_pie_loop_store_frame [of s2 "length s" rs "length s"] by simp
  have "take (length s) (fst (yes_pie_stage s pp cy)) = s"
  proof (cases "labels_in ?s1 pp")
    case (Inl e)
    then show ?thesis by (simp add: yes_pie_stage_def allocate_def)
  next
    case (Inr ls)
    obtain s2 r2 where i: "(if ls \<noteq> [] then yes_pie_init_store ?s1 (length s) ls else (?s1, None)) =
        (s2, r2)" by (cases "if ls \<noteq> [] then yes_pie_init_store ?s1 (length s) ls else (?s1, None)")
    then have s2: "take (length s) s2 = s"
      using init [of ls] by (auto split: if_splits)
    show ?thesis
    proof (cases r2)
      case (Some e)
      with Inr i s2 show ?thesis by (simp add: yes_pie_stage_def allocate_def)
    next
      case None
      show ?thesis
      proof (cases "items_in s2 cy")
        case (Inl e)
        with Inr i None s2 show ?thesis by (simp add: yes_pie_stage_def allocate_def)
      next
        case items: (Inr cs)
        obtain s3 r3 where l: "(if cs \<noteq> [] then yes_pie_loop_store s2 (length s) cs
            else (s2, None)) = (s3, r3)"
          by (cases "if cs \<noteq> [] then yes_pie_loop_store s2 (length s) cs else (s2, None)")
        then have "take (length s) s3 = s"
          using loop [of s2 cs] s2 by (auto split: if_splits)
        with Inr i None items l show ?thesis
          by (simp add: yes_pie_stage_def allocate_def split: option.splits)
      qed
    qed
  qed
  then show ?thesis .
qed

lemma would_buy_pie_stage_run:
  assumes d: "details_in s ar = Inr dopt"
    and recs: "case dopt of None \<Rightarrow> True | Some rs \<Rightarrow> list_all (is_record s) rs"
  shows "case count_would_buy_pie (decision_set s ar) of
           Inl e \<Rightarrow> snd (would_buy_pie_stage s ar) = Inl e
         | Inr w \<Rightarrow> would_buy_pie_stage s ar = (s @ [Counters w], Inr (length s))"
proof -
  let ?s1 = "s @ [Counters would_buy_pie_init]"
  have ext: "take (length s) ?s1 = s" by simp
  have d1: "details_in ?s1 ar = Inr dopt" by (rule details_in_extend [OF ext d])
  show ?thesis
  proof (cases dopt)
    case None
    then show ?thesis
      using d d1
      by (simp add: would_buy_pie_stage_def allocate_def decision_set_def count_would_buy_pie_def)
  next
    case (Some rs)
    with recs have "list_all (is_record s) rs" by simp
    from records_extend [OF ext this] have r1: "list_all (is_record ?s1) rs"
      and m1: "map (record_of ?s1) rs = map (record_of s) rs" by auto
    from would_buy_loop_store_run [OF fetch_last r1]
    have run: "case would_buy_loop would_buy_pie_init (map (record_of s) rs) of
           Inl e \<Rightarrow> snd (would_buy_loop_store ?s1 (length s) rs) = Some e
         | Inr c' \<Rightarrow> would_buy_loop_store ?s1 (length s) rs = (s @ [Counters c'], None)"
      by (simp add: m1 assign_last split: sum.splits)
    show ?thesis
    proof (cases "would_buy_loop would_buy_pie_init (map (record_of s) rs)")
      case (Inl e)
      with run obtain s2 where "would_buy_loop_store ?s1 (length s) rs = (s2, Some e)"
        by (cases "would_buy_loop_store ?s1 (length s) rs") auto
      with Inl Some d d1 show ?thesis
        by (simp add: would_buy_pie_stage_def allocate_def decision_set_def
            count_would_buy_pie_def)
    next
      case (Inr w)
      with run Some d d1 show ?thesis
        by (simp add: would_buy_pie_stage_def allocate_def decision_set_def
            count_would_buy_pie_def)
    qed
  qed
qed

lemma age_distribution_stage_run:
  assumes d: "details_in s ar = Inr dopt"
    and recs: "case dopt of None \<Rightarrow> True | Some rs \<Rightarrow> list_all (is_record s) rs"
  shows "case count_age_distribution (decision_set s ar) of
           Inl e \<Rightarrow> snd (age_distribution_stage s ar) = Inl e
         | Inr a \<Rightarrow> age_distribution_stage s ar = (s @ [Counters a], Inr (length s))"
proof -
  let ?s1 = "s @ [Counters age_distribution_init]"
  have ext: "take (length s) ?s1 = s" by simp
  have d1: "details_in ?s1 ar = Inr dopt" by (rule details_in_extend [OF ext d])
  show ?thesis
  proof (cases dopt)
    case None
    then show ?thesis
      using d d1
      by (simp add: age_distribution_stage_def allocate_def decision_set_def
          count_age_distribution_def)
  next
    case (Some rs)
    with recs have "list_all (is_record s) rs" by simp
    from records_extend [OF ext this] have r1: "list_all (is_record ?s1) rs"
      and m1: "map (record_of ?s1) rs = map (record_of s) rs" by auto
    from age_loop_store_run [OF fetch_last r1]
    have run: "case age_loop age_distribution_init (map (record_of s) rs) of
           Inl e \<Rightarrow> snd (age_loop_store ?s1 (length s) rs) = Some e
         | Inr c' \<Rightarrow> age_loop_store ?s1 (length s) rs = (s @ [Counters c'], None)"
      by (simp add: m1 assign_last split: sum.splits)
    show ?thesis
    proof (cases "age_loop age_distribution_init (map (record_of s) rs)")
      case (Inl e)
      with run obtain s2 where "age_loop_store ?s1 (length s) rs = (s2, Some e)"
        by (cases "age_loop_store ?s1 (length s) rs") auto
      with Inl Some d d1 show ?thesis
        by (simp add: age_distribution_stage_def allocate_def decision_set_def
            count_age_distribution_def)
    next
      case (Inr a)
      with run Some d d1 show ?thesis
        by (simp add: age_distribution_stage_def allocate_def decision_set_def
            count_age_distribution_def)
    qed
  qed
qed

lemma yes_pie_stage_run:
  assumes l: "labels_in s pp = Inr ls" and c: "items_in s cy = Inr cs"
    and recs: "list_all (is_record s) cs"
  shows "yes_pie_stage s pp cy =
     (s @ [LabelCounters (count_yes_pie ls (map (record_of s) cs))], Inr (length s))"
proof -
  let ?s1 = "s @ [LabelCounters []]"
  let ?y0 = "if ls \<noteq> [] then yes_pie_init_loop [] ls else []"
  let ?s2 = "s @ [LabelCounters ?y0]"
  have ext1: "take (length s) ?s1 = s" and ext2: "take (length s) ?s2 = s" by simp_all
  have l1: "labels_in ?s1 pp = Inr ls" by (rule labels_in_extend [OF ext1 l])
  have init: "(if ls \<noteq> [] then yes_pie_init_store ?s1 (length s) ls else (?s1, None)) =
      (?s2, None)"
    using yes_pie_init_store_run [OF fetch_last, of s "[]" ls] by (simp add: assign_last)
  have c2: "items_in ?s2 cy = Inr cs" by (rule items_in_extend [OF ext2 c])
  from records_extend [OF ext2 recs] have r2: "list_all (is_record ?s2) cs"
    and m2: "map (record_of ?s2) cs = map (record_of s) cs" by auto
  have loop: "(if cs \<noteq> [] then yes_pie_loop_store ?s2 (length s) cs else (?s2, None)) =
      (s @ [LabelCounters (count_yes_pie ls (map (record_of s) cs))], None)"
    using yes_pie_loop_store_run [OF fetch_last r2]
    by (simp add: m2 assign_last count_yes_pie_def)
  show ?thesis
    unfolding yes_pie_stage_def allocate_def
    by (simp only: prod.case l1 sum.case init option.case c2 loop)
qed

subsection \<open>The whole aggregation\<close>

lemma take_through:
  assumes "take (length s) s1 = s" "take (length s1) s2 = s1"
  shows "take (length s) s2 = s"
proof -
  have "length (take (length s) s1) = length s" using assms(1) by simp
  then have "length s \<le> length s1" by simp
  then have "take (length s) (take (length s1) s2) = take (length s) s2" by (simp add: min_def)
  with assms show ?thesis by simp
qed

lemma aggregate_store_frame:
  "take (length s) (fst (aggregate_store s ar pp cy)) = s"
proof -
  obtain s1 r1 where 1: "would_buy_pie_stage s ar = (s1, r1)" by (cases "would_buy_pie_stage s ar")
  obtain s2 r2 where 2: "yes_pie_stage s1 pp cy = (s2, r2)" by (cases "yes_pie_stage s1 pp cy")
  obtain s3 r3 where 3: "age_distribution_stage s2 ar = (s3, r3)"
    by (cases "age_distribution_stage s2 ar")
  have f1: "take (length s) s1 = s" using would_buy_pie_stage_frame [of s ar] 1 by simp
  have "take (length s1) s2 = s1" using yes_pie_stage_frame [of s1 pp cy] 2 by simp
  with f1 have f2: "take (length s) s2 = s" by (rule take_through)
  have "take (length s2) s3 = s2" using age_distribution_stage_frame [of s2 ar] 3 by simp
  with f2 have f3: "take (length s) s3 = s" by (rule take_through)
  from 1 2 3 f1 f2 f3 show ?thesis
    by (simp add: aggregate_store_def split: sum.splits)
qed

lemma aggregate_store_run:
  assumes wf: "well_formed s ar pp cy"
  shows "case aggregate (decision_set s ar) (declared_labels s pp) (classifications s cy) of
           Inl e \<Rightarrow> snd (aggregate_store s ar pp cy) = Inl e
         | Inr (w, y, a) \<Rightarrow>
             aggregate_store s ar pp cy =
               (s @ [the w, the y, the a], Inr (length s, length s + 1, length s + 2))"
proof -
  from wf obtain dopt ls cs where d: "details_in s ar = Inr dopt"
    and dr: "case dopt of None \<Rightarrow> True | Some rs \<Rightarrow> list_all (is_record s) rs"
    and l: "labels_in s pp = Inr ls"
    and c: "items_in s cy = Inr cs" and cr: "list_all (is_record s) cs"
    by (auto simp: well_formed_def split: sum.splits)
  have L: "declared_labels s pp = ls" using l by (simp add: declared_labels_def)
  have C: "classifications s cy = map (record_of s) cs" using c by (simp add: classifications_def)
  show ?thesis
  proof (cases "count_would_buy_pie (decision_set s ar)")
    case (Inl e)
    with would_buy_pie_stage_run [OF d dr]
    obtain s1 where "would_buy_pie_stage s ar = (s1, Inl e)"
      by (cases "would_buy_pie_stage s ar") auto
    with Inl show ?thesis by (simp add: aggregate_def aggregate_store_def)
  next
    case w: (Inr w)
    let ?s1 = "s @ [Counters w]"
    let ?y = "count_yes_pie ls (map (record_of s) cs)"
    let ?s2 = "?s1 @ [LabelCounters ?y]"
    from would_buy_pie_stage_run [OF d dr] w
    have 1: "would_buy_pie_stage s ar = (?s1, Inr (length s))" by simp
    have ext1: "take (length s) ?s1 = s" by simp
    from well_formed_extend [OF ext1 wf] have wf1: "well_formed ?s1 ar pp cy" by simp
    from records_extend [OF ext1 cr] have cr1: "list_all (is_record ?s1) cs"
      and m1: "map (record_of ?s1) cs = map (record_of s) cs" by auto
    from yes_pie_stage_run [OF labels_in_extend [OF ext1 l] items_in_extend [OF ext1 c] cr1]
    have 2: "yes_pie_stage ?s1 pp cy = (?s2, Inr (length ?s1))" by (simp add: m1)
    have ext2: "take (length s) ?s2 = s" by simp
    note d2 = details_in_extend [OF ext2 d]
    have dr2: "case dopt of None \<Rightarrow> True | Some rs \<Rightarrow> list_all (is_record ?s2) rs"
      using dr records_extend [OF ext2] by (auto split: option.splits)
    from well_formed_extend [OF ext2 wf] have D2: "decision_set ?s2 ar = decision_set s ar"
      by simp
    note 3 = age_distribution_stage_run [OF d2 dr2, unfolded D2]
    show ?thesis
    proof (cases "count_age_distribution (decision_set s ar)")
      case (Inl e)
      with 3 obtain s3 where "age_distribution_stage ?s2 ar = (s3, Inl e)"
        by (cases "age_distribution_stage ?s2 ar") auto
      with Inl w 1 2 show ?thesis by (simp add: aggregate_def aggregate_store_def)
    next
      case (Inr a)
      with 3 have "age_distribution_stage ?s2 ar = (?s2 @ [Counters a], Inr (length ?s2))"
        by simp
      with Inr w 1 2 show ?thesis by (simp add: aggregate_def aggregate_store_def L C)
    qed
  qed
qed

lemma aggregate_store_mappings:
  assumes wf: "well_formed s ar pp cy"
  shows "mappings (aggregate_store s ar pp cy) =
         aggregate (decision_set s ar) (declared_labels s pp) (classifications s cy)"
proof (cases "aggregate (decision_set s ar) (declared_labels s pp) (classifications s cy)")
  case (Inl e)
  with aggregate_store_run [OF wf] have "snd (aggregate_store s ar pp cy) = Inl e" by simp
  then obtain s' where "aggregate_store s ar pp cy = (s', Inl e)"
    by (cases "aggregate_store s ar pp cy") auto
  with Inl show ?thesis by (simp add: mappings_def)
next
  case (Inr m)
  obtain w y a where m: "m = (w, y, a)" by (cases m)
  from Inr m obtain w' y' a' where
    "w = Some (Counters w')" "y = Some (LabelCounters y')" "a = Some (Counters a')"
    by (auto simp: aggregate_def split: sum.splits)
  with aggregate_store_run [OF wf] Inr m show ?thesis
    by (simp add: mappings_def fetch_def nth_append)
qed

lemma scenario_store_objects:
  "scenario_store =
     [Record (scenario_details ! 0), Record (scenario_details ! 1), Record (scenario_details ! 2),
      Record (scenario_details ! 3), Items [0, 1, 2, 3], Results (Some 4),
      Labels [PStr ''EcoConscious'', PStr ''Budget''],
      Record (scenario_classified ! 0), Record (scenario_classified ! 1),
      Record (scenario_classified ! 2), Items [7, 8, 9]]"
  by (simp add: scenario_store_def scenario_details_def scenario_classified_def)

lemma scenario_store_well_formed: "well_formed scenario_store 5 6 10"
  by (simp add: scenario_store_objects well_formed_def details_in_def labels_in_def
      items_in_def fetch_def is_record_def)

lemma scenario_store_contents:
  "decision_set scenario_store 5 = Some scenario_details"
  "declared_labels scenario_store 6 = [PStr ''EcoConscious'', PStr ''Budget'']"
  "classifications scenario_store 10 = scenario_classified"
proof -
  have d: "scenario_details = [scenario_details ! 0, scenario_details ! 1, scenario_details ! 2,
      scenario_details ! 3]"
    by (simp add: scenario_details_def)
  have c: "scenario_classified = [scenario_classified ! 0, scenario_classified ! 1,
      scenario_classified ! 2]"
    by (simp add: scenario_classified_def)
  show "decision_set scenario_store 5 = Some scenario_details"
    by (subst d)
       (simp add: scenario_store_objects decision_set_def details_in_def fetch_def record_of_def)
  show "declared_labels scenario_store 6 = [PStr ''EcoConscious'', PStr ''Budget'']"
    by (simp add: scenario_store_objects declared_labels_def labels_in_def fetch_def)
  show "classifications scenario_store 10 = scenario_classified"
    by (subst c)
       (simp add: scenario_store_objects classifications_def items_in_def fetch_def record_of_def)
qed

lemma scenario_aggregate:
  "aggregate (Some scenario_details) [PStr ''EcoConscious'', PStr ''Budget''] scenario_classified =
     Inr (Some (Counters [(''yes'', 3), (''no'', 1)]),
          Some (LabelCounters [(PStr ''EcoConscious'', 2), (PStr ''Budget'', 1)]),
          Some (Counters [(''18-29'', 1), (''30-49'', 2), (''50-64'', 0), (''65+'', 1)]))"
  by (simp add: aggregate_def scenario_would_buy scenario_yes_pie scenario_age)

text \<open>
  C9. Lines 82 to 136 run on a store whose objects are of the kinds they read. What the run
  leaves in its three new dictionaries is what the counting functions give from the decision
  set, the declared labels and the classifications that the store holds: it depends on no
  other object, on no reference, and on no earlier run, so any store holding the same
  decision set, labels and classifications gives the same three mappings. Every object
  that existed before the run is unchanged after it, the decision set, the labels and the
  classifications among them. A second run on the store that the first one left gives
  mappings identical to the first, in three more new dictionaries, and leaves those of the
  first run as they are. When the aggregation raises, it raises the same exception both
  times.
\<close>

theorem aggregation_is_pure:
  assumes "well_formed s analysis_results product_persona classified_yes"
  shows
    "take (length s) (fst (aggregate_store s analysis_results product_persona classified_yes)) = s
     \<and> decision_set (fst (aggregate_store s analysis_results product_persona classified_yes))
         analysis_results = decision_set s analysis_results
     \<and> declared_labels (fst (aggregate_store s analysis_results product_persona classified_yes))
         product_persona = declared_labels s product_persona
     \<and> classifications (fst (aggregate_store s analysis_results product_persona classified_yes))
         classified_yes = classifications s classified_yes
     \<and> mappings (aggregate_store s analysis_results product_persona classified_yes) =
         aggregate (decision_set s analysis_results) (declared_labels s product_persona)
           (classifications s classified_yes)
     \<and> (well_formed s' analysis_results' product_persona' classified_yes' \<and>
        decision_set s' analysis_results' = decision_set s analysis_results \<and>
        declared_labels s' product_persona' = declared_labels s product_persona \<and>
        classifications s' classified_yes' = classifications s classified_yes \<longrightarrow>
        mappings (aggregate_store s' analysis_results' product_persona' classified_yes') =
        mappings (aggregate_store s analysis_results product_persona classified_yes))
     \<and> mappings
         (aggregate_store (fst (aggregate_store s analysis_results product_persona classified_yes))
            analysis_results product_persona classified_yes) =
       mappings (aggregate_store s analysis_results product_persona classified_yes)
     \<and> take (length (fst (aggregate_store s analysis_results product_persona classified_yes)))
         (fst (aggregate_store
            (fst (aggregate_store s analysis_results product_persona classified_yes))
            analysis_results product_persona classified_yes)) =
       fst (aggregate_store s analysis_results product_persona classified_yes)"
proof -
  let ?run = "aggregate_store s analysis_results product_persona classified_yes"
  have frame: "take (length s) (fst ?run) = s" by (rule aggregate_store_frame)
  note after = well_formed_extend [OF frame assms]
  have m: "mappings ?run =
      aggregate (decision_set s analysis_results) (declared_labels s product_persona)
        (classifications s classified_yes)"
    by (rule aggregate_store_mappings [OF assms])
  have other: "mappings (aggregate_store s' analysis_results' product_persona' classified_yes') =
      mappings ?run"
    if "well_formed s' analysis_results' product_persona' classified_yes'"
      "decision_set s' analysis_results' = decision_set s analysis_results"
      "declared_labels s' product_persona' = declared_labels s product_persona"
      "classifications s' classified_yes' = classifications s classified_yes"
    using aggregate_store_mappings [OF that(1)] that(2-4) m by simp
  have again: "mappings (aggregate_store (fst ?run) analysis_results product_persona classified_yes) =
      mappings ?run"
    using aggregate_store_mappings [of "fst ?run" analysis_results product_persona classified_yes]
      after m by simp
  have frame2: "take (length (fst ?run))
      (fst (aggregate_store (fst ?run) analysis_results product_persona classified_yes)) = fst ?run"
    by (rule aggregate_store_frame)
  from frame after m other again frame2 show ?thesis by blast
qed

theorem aggregation_is_pure_witness:
  "take (length scenario_store) (fst (aggregate_store scenario_store 5 6 10)) = scenario_store
   \<and> mappings (aggregate_store scenario_store 5 6 10) =
     Inr (Some (Counters [(''yes'', 3), (''no'', 1)]),
          Some (LabelCounters [(PStr ''EcoConscious'', 2), (PStr ''Budget'', 1)]),
          Some (Counters [(''18-29'', 1), (''30-49'', 2), (''50-64'', 0), (''65+'', 1)]))
   \<and> mappings (aggregate_store (fst (aggregate_store scenario_store 5 6 10)) 5 6 10) =
     Inr (Some (Counters [(''yes'', 3), (''no'', 1)]),
          Some (LabelCounters [(PStr ''EcoConscious'', 2), (PStr ''Budget'', 1)]),
          Some (Counters [(''18-29'', 1), (''30-49'', 2), (''50-64'', 0), (''65+'', 1)]))
   \<and> decision_set (fst (aggregate_store scenario_store 5 6 10)) 5 = Some scenario_details"
proof -
  note inst = aggregation_is_pure [OF scenario_store_well_formed,
      where s' = scenario_store and analysis_results' = 5 and product_persona' = 6
        and classified_yes' = 10]
  from inst have "take (length scenario_store) (fst (aggregate_store scenario_store 5 6 10)) =
      scenario_store" by blast
  moreover from inst have "mappings (aggregate_store scenario_store 5 6 10) =
      aggregate (decision_set scenario_store 5) (declared_labels scenario_store 6)
        (classifications scenario_store 10)" by blast
  moreover from inst have
    "mappings (aggregate_store (fst (aggregate_store scenario_store 5 6 10)) 5 6 10) =
     mappings (aggregate_store scenario_store 5 6 10)" by blast
  moreover from inst have "decision_set (fst (aggregate_store scenario_store 5 6 10)) 5 =
      decision_set scenario_store 5" by blast
  ultimately show ?thesis by (simp add: scenario_store_contents scenario_aggregate)
qed

end
